theory Spec2Isabelle
  imports Complex_Main
begin

section \<open>JavaScript strings\<close>

text \<open>
  A JavaScript string is a sequence of UTF-16 code units; \<open>length\<close>, \<open>charAt\<close>,
  \<open>substring\<close> and the regular expressions of the sources all work on code units.
  A code unit is modelled as a natural number, a string as the list of its code units.
  \<open>js\<close> turns an ASCII literal into such a list.
\<close>

type_synonym js_string = "nat list"

definition js :: "string \<Rightarrow> js_string" where
  "js s = map of_char s"

text \<open>The character class \<open>\d\<close> (no \<open>u\<close> or \<open>i\<close> flag): the ASCII digits only.\<close>

definition is_digit :: "nat \<Rightarrow> bool" where
  "is_digit c = (48 \<le> c \<and> c \<le> 57)"

text \<open>
  The character class \<open>\s\<close>: ECMAScript's WhiteSpace and LineTerminator code points
  (tab, LF, VT, FF, CR, space, NBSP, U+1680, U+2000..U+200A, U+2028, U+2029, U+202F,
  U+205F, U+3000, U+FEFF). \<open>String.prototype.trim\<close> strips the same set.
\<close>

definition is_space :: "nat \<Rightarrow> bool" where
  "is_space c =
     (c = 9 \<or> c = 10 \<or> c = 11 \<or> c = 12 \<or> c = 13 \<or> c = 32 \<or> c = 160 \<or> c = 5760 \<or>
      (8192 \<le> c \<and> c \<le> 8202) \<or> c = 8232 \<or> c = 8233 \<or> c = 8239 \<or> c = 8287 \<or>
      c = 12288 \<or> c = 65279)"

text \<open>\<open>s.replace(/\s+/g, '')\<close>: every run of white space is deleted.\<close>

definition replace_spaces :: "js_string \<Rightarrow> js_string" where
  "replace_spaces s = filter (\<lambda>c. \<not> is_space c) s"

text \<open>\<open>s.replace(/\D/g, '')\<close>: every code unit that is not a digit is deleted.\<close>

definition replace_non_digits :: "js_string \<Rightarrow> js_string" where
  "replace_non_digits s = filter is_digit s"

text \<open>\<open>/^\d+$/.test(s)\<close>: one digit at least and digits only.\<close>

definition test_digits :: "js_string \<Rightarrow> bool" where
  "test_digits s = (s \<noteq> [] \<and> list_all is_digit s)"

text \<open>\<open>s.trim()\<close>.\<close>

definition trim :: "js_string \<Rightarrow> js_string" where
  "trim s = rev (dropWhile is_space (rev (dropWhile is_space s)))"

text \<open>\<open>s.substring(0, n)\<close> and \<open>s.substring(n)\<close> for a literal \<open>n \<ge> 0\<close>.\<close>

definition substring_to :: "nat \<Rightarrow> js_string \<Rightarrow> js_string" where
  "substring_to n s = take n s"

definition substring_from :: "nat \<Rightarrow> js_string \<Rightarrow> js_string" where
  "substring_from n s = drop n s"

text \<open>
  \<open>parseInt(c, 10)\<close> for a one-character string \<open>c\<close>. It is \<open>NaN\<close> unless \<open>c\<close> is a
  digit; the only caller runs behind \<open>/^\d+$/\<close>, and the model gives \<open>None\<close> for
  \<open>NaN\<close>.
\<close>

definition parseInt :: "nat \<Rightarrow> nat option" where
  "parseInt c = (if is_digit c then Some (c - 48) else None)"

section \<open>ValidationService.luhnValidator\<close>

text \<open>The validator returns \<open>null\<close> (here \<open>None\<close>) or the object \<open>{ luhn: true }\<close>.\<close>

datatype ValidationErrors = LuhnError

text \<open>
  The loop \<open>for (let i = value.length - 1; i >= 0; i--)\<close>. The second argument is
  \<open>i + 1\<close>, so that the loop ends at \<open>0\<close>; \<open>sumv\<close> (the source's \<open>sum\<close>) and
  \<open>shouldDouble\<close> are the loop's two variables. A \<open>NaN\<close> digit makes the sum \<open>NaN\<close> (\<open>None\<close>).
\<close>

fun luhn_loop :: "js_string \<Rightarrow> nat \<Rightarrow> nat option \<Rightarrow> bool \<Rightarrow> nat option" where
  "luhn_loop v 0 sumv shouldDouble = sumv"
| "luhn_loop v (Suc i) sumv shouldDouble =
     (let digit = parseInt (v ! i);
          digit = (if shouldDouble
                   then map_option (\<lambda>d. let d2 = d * 2 in if d2 > 9 then d2 - 9 else d2) digit
                   else digit);
          sumv = (case (sumv, digit) of (Some a, Some d) \<Rightarrow> Some (a + d) | _ \<Rightarrow> None)
      in luhn_loop v i sumv (\<not> shouldDouble))"

text \<open>
  The control's value is \<open>null\<close> (\<open>None\<close>) or a string. \<open>!control.value\<close> holds for
  \<open>null\<close> and for the empty string. \<open>(sum % 10) === 0\<close> is false for \<open>NaN\<close>.
\<close>

definition luhnValidator :: "js_string option \<Rightarrow> ValidationErrors option" where
  "luhnValidator control_value =
     (case control_value of
        None \<Rightarrow> None
      | Some raw \<Rightarrow>
          if raw = [] then None
          else
            let v = replace_spaces raw in
            if \<not> test_digits v then Some LuhnError
            else
              (case luhn_loop v (length v) (Some 0) False of
                 Some sumv \<Rightarrow> if sumv mod 10 = 0 then None else Some LuhnError
               | None \<Rightarrow> Some LuhnError))"

subsection \<open>The checksum as the specification words it\<close>

text \<open>
  The digits are numbered from the right, starting at 0. A digit at an odd position is
  doubled, and 9 is subtracted from a doubled digit that exceeds 9; the checksum is the
  sum of all the digits so treated.
\<close>

definition luhn_term :: "nat \<Rightarrow> nat \<Rightarrow> nat" where
  "luhn_term p d = (if odd p then (if 2 * d > 9 then 2 * d - 9 else 2 * d) else d)"

definition luhn_checksum_spec :: "nat list \<Rightarrow> nat" where
  "luhn_checksum_spec ds = (\<Sum>p < length ds. luhn_term p (rev ds ! p))"

definition digit_values :: "js_string \<Rightarrow> nat list" where
  "digit_values s = map (\<lambda>c. c - 48) s"

section \<open>Angular's built-in validators\<close>

text \<open>
  The validators of \<open>@angular/forms\<close> that the component attaches to its controls, as
  Angular documents them, on string values. Each one is given as the condition under
  which it reports no error. \<open>Validators.required\<close> fails on the empty string only
  (white space counts as content). \<open>minLength\<close>, and \<open>pattern\<close>, pass on the empty
  string and leave it to \<open>required\<close>; \<open>minLength\<close> and \<open>maxLength\<close> compare the
  \<open>length\<close> of the control's value, the string as it stands.
\<close>

definition required_ok :: "js_string \<Rightarrow> bool" where
  "required_ok v = (v \<noteq> [])"

definition minLength_ok :: "nat \<Rightarrow> js_string \<Rightarrow> bool" where
  "minLength_ok n v = (v = [] \<or> n \<le> length v)"

definition maxLength_ok :: "nat \<Rightarrow> js_string \<Rightarrow> bool" where
  "maxLength_ok n v = (length v \<le> n)"

definition pattern_ok :: "(js_string \<Rightarrow> bool) \<Rightarrow> js_string \<Rightarrow> bool" where
  "pattern_ok test v = (v = [] \<or> test v)"

text \<open>
  The expiry pattern \<open>/^(0[1-9]|1[0-2])\s?\/\s?([2-9][0-9])$/\<close>. No white-space code
  unit is a slash or a digit, so an optional \<open>\s\<close> is taken exactly when the next code
  unit is white space.
\<close>

definition month_matches :: "nat \<Rightarrow> nat \<Rightarrow> bool" where
  "month_matches a b = ((a = 48 \<and> 49 \<le> b \<and> b \<le> 57) \<or> (a = 49 \<and> 48 \<le> b \<and> b \<le> 50))"

fun skip_optional_space :: "js_string \<Rightarrow> js_string" where
  "skip_optional_space [] = []"
| "skip_optional_space (c # cs) = (if is_space c then cs else c # cs)"

definition year_matches :: "js_string \<Rightarrow> bool" where
  "year_matches s = (case s of [a, b] \<Rightarrow> 50 \<le> a \<and> a \<le> 57 \<and> is_digit b | _ \<Rightarrow> False)"

definition expiry_pattern_test :: "js_string \<Rightarrow> bool" where
  "expiry_pattern_test s =
     (case s of
        a # b # r \<Rightarrow>
          month_matches a b \<and>
          (case skip_optional_space r of
             c # r' \<Rightarrow> c = 47 \<and> year_matches (skip_optional_space r')
           | [] \<Rightarrow> False)
      | _ \<Rightarrow> False)"

section \<open>The forms of CheckoutComponent\<close>

text \<open>
  A form control holds its value and its \<open>touched\<close> flag. The payment form is a group of
  four controls; \<open>disable()\<close> and \<open>enable()\<close> act on the whole group, so one flag
  records them.
\<close>

record FormControl =
  control_value :: js_string
  touched :: bool

record PaymentForm =
  cardNumber :: FormControl
  expiryDate :: FormControl
  cvc :: FormControl
  cardHolder :: FormControl
  disabled :: bool

text \<open>The validator lists of \<open>paymentForm\<close> and \<open>searchControl\<close>, control by control.\<close>

definition cardNumber_valid :: "js_string \<Rightarrow> bool" where
  "cardNumber_valid v =
     (required_ok v \<and> minLength_ok 16 v \<and> maxLength_ok 19 v \<and> luhnValidator (Some v) = None)"

definition expiryDate_valid :: "js_string \<Rightarrow> bool" where
  "expiryDate_valid v = (required_ok v \<and> pattern_ok expiry_pattern_test v)"

definition cvc_valid :: "js_string \<Rightarrow> bool" where
  "cvc_valid v = (required_ok v \<and> minLength_ok 3 v \<and> maxLength_ok 4 v \<and> pattern_ok test_digits v)"

definition cardHolder_valid :: "js_string \<Rightarrow> bool" where
  "cardHolder_valid v = (required_ok v \<and> minLength_ok 3 v)"

definition searchControl_valid :: "js_string \<Rightarrow> bool" where
  "searchControl_valid v = (required_ok v \<and> minLength_ok 5 v)"

text \<open>
  \<open>paymentForm.invalid\<close>: the group's status is \<open>INVALID\<close>, which Angular gives to an
  enabled group one of whose controls has an error. A disabled group has the status
  \<open>DISABLED\<close> and is not \<open>invalid\<close>, whatever its values.
\<close>

definition paymentForm_invalid :: "PaymentForm \<Rightarrow> bool" where
  "paymentForm_invalid f =
     (\<not> disabled f \<and>
      \<not> (cardNumber_valid (control_value (cardNumber f)) \<and>
         expiryDate_valid (control_value (expiryDate f)) \<and>
         cvc_valid (control_value (cvc f)) \<and>
         cardHolder_valid (control_value (cardHolder f))))"

definition searchControl_invalid :: "FormControl \<Rightarrow> bool" where
  "searchControl_invalid c = (\<not> searchControl_valid (control_value c))"

definition markAsTouched :: "FormControl \<Rightarrow> FormControl" where
  "markAsTouched c = c\<lparr>touched := True\<rparr>"

definition markAllAsTouched :: "PaymentForm \<Rightarrow> PaymentForm" where
  "markAllAsTouched f =
     f\<lparr>cardNumber := markAsTouched (cardNumber f),
       expiryDate := markAsTouched (expiryDate f),
       cvc := markAsTouched (cvc f),
       cardHolder := markAsTouched (cardHolder f)\<rparr>"

definition setValue :: "js_string \<Rightarrow> FormControl \<Rightarrow> FormControl" where
  "setValue v c = c\<lparr>control_value := v\<rparr>"

section \<open>The input formatters\<close>

text \<open>
  \<open>value.replace(/(\d{4})/g, '$1 ')\<close>: scanning from the left, four digits in a row are
  copied and followed by a space, and the scan goes on behind them; any other code unit
  is copied as it is.
\<close>

fun replace_d4 :: "js_string \<Rightarrow> js_string" where
  "replace_d4 (a # b # c # d # rest) =
     (if is_digit a \<and> is_digit b \<and> is_digit c \<and> is_digit d
      then a # b # c # d # 32 # replace_d4 rest
      else a # replace_d4 (b # c # d # rest))"
| "replace_d4 xs = xs"

text \<open>The value that \<open>formatCardNumber\<close> computes from the input element's text.\<close>

definition formatCardNumber_value :: "js_string \<Rightarrow> js_string" where
  "formatCardNumber_value input_value =
     (let v = substring_to 16 (replace_non_digits input_value);
          v = trim (replace_d4 v)
      in v)"

text \<open>The value that \<open>formatExpiryDate\<close> computes; \<open>' / '\<close> is space, slash, space.\<close>

definition formatExpiryDate_value :: "js_string \<Rightarrow> js_string" where
  "formatExpiryDate_value input_value =
     (let v = substring_to 4 (replace_non_digits input_value)
      in if length v > 2 then substring_to 2 v @ [32, 47, 32] @ substring_from 2 v else v)"

section \<open>The payment model\<close>

text \<open>
  The interfaces of \<open>models/payment.model.ts\<close>. The type parameter \<open>'n\<close> stands for
  JavaScript's \<open>number\<close>. Field names that occur in two interfaces, and \<open>id\<close> and
  \<open>status\<close>, carry a prefix.
\<close>

datatype CheckoutStatus =
    INITIALIZING
  | AWAITING_INPUT
  | LOADING_LINK
  | LINK_NOT_FOUND
  | READY_TO_PAY
  | PROCESSING_PAYMENT
  | COMPLETED
  | FAILED
  | ERROR_RETRYABLE

datatype LinkStatus = LINK_DRAFT | LINK_ACTIVE | LINK_EXPIRED | LINK_COMPLETED | LINK_CANCELLED

datatype PaymentStatus = PAYMENT_COMPLETED | PAYMENT_FAILED

datatype PspProvider = STRIPE | ADYEN

record 'n FeeBreakdown =
  fixedFeeUsd :: 'n
  variableFeeUsd :: 'n
  fxMarkupUsd :: 'n
  firstTxDiscountUsd :: 'n

record 'n FeePreview =
  fxRate :: 'n
  totalFeesUsd :: 'n
  recipientAmountMxn :: 'n
  breakdown :: "'n FeeBreakdown"

record 'n PaymentLinkResponse =
  link_id :: js_string
  merchantId :: js_string
  link_status :: LinkStatus
  amountUsd :: 'n
  description :: js_string
  expiresAt :: "js_string option"
  createdAt :: js_string
  updatedAt :: js_string
  checkoutUrl :: js_string

record 'n PaymentLinkWithPreviewResponse = "'n PaymentLinkResponse" +
  feePreview :: "'n FeePreview"

record ProcessPaymentRequest =
  cardToken :: js_string
  pspProvider :: PspProvider
  idempotencyKey :: js_string
  metadata :: "(js_string \<times> js_string) list"

record 'n ProcessPaymentResponse =
  transactionId :: js_string
  payment_status :: PaymentStatus
  paymentLinkId :: js_string
  response_pspProvider :: PspProvider
  response_amountUsd :: 'n
  response_recipientAmountMxn :: 'n
  fxRateApplied :: 'n
  response_totalFeesUsd :: 'n

section \<open>The collaborators\<close>

text \<open>
  \<open>HttpErrorResponse.error\<close> has the type \<open>any\<close>: it is the parsed body of the error
  response, a string, \<open>null\<close>, or an object of the browser. The values of JavaScript
  that the error handler can tell apart:
\<close>

datatype js_value =
    JUndefined
  | JNull
  | JBool bool
  | JNumber int
  | JString js_string
  | JObject "(js_string \<times> js_value) list"

fun truthy :: "js_value \<Rightarrow> bool" where
  "truthy JUndefined = False"
| "truthy JNull = False"
| "truthy (JBool b) = b"
| "truthy (JNumber n) = (n \<noteq> 0)"
| "truthy (JString s) = (s \<noteq> [])"
| "truthy (JObject props) = True"

text \<open>\<open>v.message\<close> for a truthy \<open>v\<close>: a primitive has no such property.\<close>

fun get_message :: "js_value \<Rightarrow> js_value" where
  "get_message (JObject props) =
     (case map_of props (js ''message'') of Some m \<Rightarrow> m | None \<Rightarrow> JUndefined)"
| "get_message v = JUndefined"

fun typeof_is_string :: "js_value \<Rightarrow> bool" where
  "typeof_is_string (JString s) = True"
| "typeof_is_string v = False"

fun string_of :: "js_value \<Rightarrow> js_string" where
  "string_of (JString s) = s"
| "string_of v = []"

text \<open>
  An HTTP call of \<open>ApiService\<close> ends with the response body or with an
  \<open>HttpErrorResponse\<close>, of which the component reads the field \<open>error\<close> only.
\<close>

datatype 'a http_outcome = HttpOk 'a | HttpError js_value

text \<open>
  The calls the component makes to its collaborators (\<open>MockPspSdkService.createToken\<close>,
  \<open>ApiService.getPaymentLink\<close>, \<open>ApiService.processPayment\<close>, \<open>Router.navigate\<close>)
  are logged in the order they are made, and the asynchronous operations it waits for
  are kept until they settle.
\<close>

datatype collaborator_call =
    CreateToken PspProvider
  | GetPaymentLink js_string
  | ProcessPayment js_string ProcessPaymentRequest
  | Navigate "js_string list"

datatype pending_operation = TokenPending | PaymentPending | LinkPending js_string

section \<open>CheckoutComponent\<close>

text \<open>The four signals, the two forms, and the log and the pending operations.\<close>

record 'n CheckoutComponent =
  status :: CheckoutStatus
  paymentLink :: "'n PaymentLinkWithPreviewResponse option"
  paymentResult :: "'n ProcessPaymentResponse option"
  errorMessage :: "js_string option"
  paymentForm :: PaymentForm
  searchControl :: FormControl
  calls :: "collaborator_call list"
  pending :: "pending_operation list"

text \<open>
  The field initialisers of the class. The default card holder is the string literal
  of the source, code unit by code unit.
\<close>

definition initial :: "'n CheckoutComponent" where
  "initial =
     \<lparr>status = INITIALIZING,
      paymentLink = None,
      paymentResult = None,
      errorMessage = None,
      paymentForm =
        \<lparr>cardNumber = \<lparr>control_value = [], touched = False\<rparr>,
         expiryDate = \<lparr>control_value = [], touched = False\<rparr>,
         cvc = \<lparr>control_value = [], touched = False\<rparr>,
         cardHolder = \<lparr>control_value = js ''Juan P'' @ [195, 169] @ js ''rez'', touched = False\<rparr>,
         disabled = False\<rparr>,
      searchControl = \<lparr>control_value = [], touched = False\<rparr>,
      calls = [],
      pending = []\<rparr>"

subsection \<open>totalAmount\<close>

text \<open>
  The arithmetic of \<open>number\<close> and \<open>Math.round\<close> are parameters of \<open>totalAmount\<close>: the
  literals \<open>0\<close> and \<open>100\<close>, \<open>+\<close>, \<open>*\<close>, \<open>/\<close> and \<open>Math.round\<close>; the section on
  JavaScript numbers gives them for binary64. \<open>Number(x)\<close> is the identity on a
  \<open>number\<close>.
\<close>

record 'n number_ops =
  num_0 :: 'n
  num_100 :: 'n
  num_add :: "'n \<Rightarrow> 'n \<Rightarrow> 'n"
  num_mul :: "'n \<Rightarrow> 'n \<Rightarrow> 'n"
  num_div :: "'n \<Rightarrow> 'n \<Rightarrow> 'n"
  Math_round :: "'n \<Rightarrow> 'n"

definition totalAmount :: "'n number_ops \<Rightarrow> 'n CheckoutComponent \<Rightarrow> 'n" where
  "totalAmount ops s =
     (case paymentLink s of
        None \<Rightarrow> num_0 ops
      | Some link \<Rightarrow>
          let total = num_add ops (amountUsd link) (totalFeesUsd (feePreview link))
          in num_div ops (Math_round ops (num_mul ops total (num_100 ops))) (num_100 ops))"

subsection \<open>loadLink and ngOnInit\<close>

text \<open>
  \<open>loadLink\<close> up to the subscription: the request is sent and its answer is awaited.
\<close>

definition loadLink :: "js_string \<Rightarrow> 'n CheckoutComponent \<Rightarrow> 'n CheckoutComponent" where
  "loadLink i s =
     s\<lparr>status := LOADING_LINK,
       calls := calls s @ [GetPaymentLink i],
       pending := pending s @ [LinkPending i]\<rparr>"

text \<open>
  The answer to \<open>getPaymentLink(i)\<close>: \<open>catchError\<close> turns an error into \<open>null\<close> after
  setting the status and the search field; the subscriber stores a link that is not
  \<open>null\<close>.
\<close>

definition loadLink_settled ::
  "js_string \<Rightarrow> 'n PaymentLinkWithPreviewResponse http_outcome \<Rightarrow>
   'n CheckoutComponent \<Rightarrow> 'n CheckoutComponent" where
  "loadLink_settled i outcome s =
     (let s = s\<lparr>pending := remove1 (LinkPending i) (pending s)\<rparr>;
          (s, data) =
            (case outcome of
               HttpError e \<Rightarrow>
                 (s\<lparr>status := LINK_NOT_FOUND,
                    searchControl := setValue i (searchControl s)\<rparr>, None)
             | HttpOk link \<Rightarrow> (s, Some link))
      in case data of
           Some link \<Rightarrow> s\<lparr>paymentLink := Some link, status := READY_TO_PAY\<rparr>
         | None \<Rightarrow> s)"

text \<open>
  The subscriber of \<open>route.params\<close> in \<open>ngOnInit\<close>, run at every emission of the route's
  parameters; \<open>params['id']\<close> is \<open>undefined\<close> (\<open>None\<close>) or a string, and the empty string
  is falsy.
\<close>

definition ngOnInit_params :: "js_string option \<Rightarrow> 'n CheckoutComponent \<Rightarrow> 'n CheckoutComponent" where
  "ngOnInit_params params_id s =
     (case params_id of
        Some i \<Rightarrow> if i \<noteq> [] then loadLink i s else s\<lparr>status := AWAITING_INPUT\<rparr>
      | None \<Rightarrow> s\<lparr>status := AWAITING_INPUT\<rparr>)"

subsection \<open>search\<close>

definition search :: "'n CheckoutComponent \<Rightarrow> 'n CheckoutComponent" where
  "search s =
     (if searchControl_invalid (searchControl s)
      then s\<lparr>searchControl := markAsTouched (searchControl s)\<rparr>
      else
        let linkId = trim (control_value (searchControl s))
        in if linkId \<noteq> [] then s\<lparr>calls := calls s @ [Navigate [js ''/links'', linkId]]\<rparr> else s)"

subsection \<open>onSubmit\<close>

definition disable :: "PaymentForm \<Rightarrow> PaymentForm" where
  "disable f = f\<lparr>disabled := True\<rparr>"

definition enable :: "PaymentForm \<Rightarrow> PaymentForm" where
  "enable f = f\<lparr>disabled := False\<rparr>"

text \<open>
  \<open>onSubmit\<close> up to its \<open>await\<close>: the validation gate, the three updates, and the call of
  \<open>createToken('STRIPE')\<close>, whose promise is awaited.
\<close>

definition onSubmit :: "'n CheckoutComponent \<Rightarrow> 'n CheckoutComponent" where
  "onSubmit s =
     (if paymentForm_invalid (paymentForm s)
      then s\<lparr>paymentForm := markAllAsTouched (paymentForm s)\<rparr>
      else
        s\<lparr>status := PROCESSING_PAYMENT,
          paymentForm := disable (paymentForm s),
          errorMessage := None,
          calls := calls s @ [CreateToken STRIPE],
          pending := pending s @ [TokenPending]\<rparr>)"

text \<open>
  The \<open>try\<close> block from the \<open>await\<close> to the call of \<open>processPayment\<close>. The token promise
  is fulfilled with a token or rejected (\<open>None\<close>); \<open>crypto.randomUUID()\<close> returns a key
  or throws (\<open>None\<close>); \<open>!id\<close> holds when no link is loaded and when its id is empty. The
  block throws (\<open>Inl\<close>) or reaches the call with the link id and the request.
\<close>

datatype submit_error = TokenRejected | RandomUUIDFailed | MissingLinkId

definition onSubmit_try ::
  "js_string option \<Rightarrow> js_string option \<Rightarrow> 'n CheckoutComponent \<Rightarrow>
   submit_error + (js_string \<times> ProcessPaymentRequest)" where
  "onSubmit_try token uuid s =
     (case token of
        None \<Rightarrow> Inl TokenRejected
      | Some tok \<Rightarrow>
          (case uuid of
             None \<Rightarrow> Inl RandomUUIDFailed
           | Some key \<Rightarrow>
               (case paymentLink s of
                  None \<Rightarrow> Inl MissingLinkId
                | Some link \<Rightarrow>
                    if link_id link = [] then Inl MissingLinkId
                    else
                      Inr (link_id link,
                           \<lparr>cardToken = tok,
                            pspProvider = STRIPE,
                            idempotencyKey = key,
                            metadata =
                              [(js ''cardHolder'',
                                control_value (cardHolder (paymentForm s)))]\<rparr>))))"

text \<open>The \<open>catch\<close> block.\<close>

definition preparing_error_message :: js_string where
  "preparing_error_message =
     js ''An unexpected error occurred while preparing the payment. Please try again.''"

definition onSubmit_catch :: "'n CheckoutComponent \<Rightarrow> 'n CheckoutComponent" where
  "onSubmit_catch s =
     s\<lparr>errorMessage := Some preparing_error_message,
       status := ERROR_RETRYABLE,
       paymentForm := enable (paymentForm s)\<rparr>"

text \<open>\<open>onSubmit\<close> resumed when the token promise settles.\<close>

definition onSubmit_tokenSettled ::
  "js_string option \<Rightarrow> js_string option \<Rightarrow> 'n CheckoutComponent \<Rightarrow> 'n CheckoutComponent" where
  "onSubmit_tokenSettled token uuid s =
     (let s = s\<lparr>pending := remove1 TokenPending (pending s)\<rparr>
      in case onSubmit_try token uuid s of
           Inl e \<Rightarrow> onSubmit_catch s
         | Inr (i, request) \<Rightarrow>
             s\<lparr>calls := calls s @ [ProcessPayment i request],
               pending := pending s @ [PaymentPending]\<rparr>)"

text \<open>
  The answer to \<open>processPayment\<close>, through \<open>catchError\<close>, the subscriber and \<open>finalize\<close>
  in this order.
\<close>

definition retry_prompt_message :: js_string where
  "retry_prompt_message =
     js ''We couldn't process your payment at this time. Please try again.''"

definition onSubmit_paymentSettled ::
  "'n ProcessPaymentResponse http_outcome \<Rightarrow> 'n CheckoutComponent \<Rightarrow> 'n CheckoutComponent" where
  "onSubmit_paymentSettled outcome s =
     (let s = s\<lparr>pending := remove1 PaymentPending (pending s)\<rparr>;
          (s, response) =
            (case outcome of
               HttpError apiError \<Rightarrow>
                 (s\<lparr>errorMessage :=
                      Some (if truthy apiError \<and> typeof_is_string (get_message apiError)
                            then string_of (get_message apiError)
                            else retry_prompt_message),
                    status := ERROR_RETRYABLE\<rparr>, None)
             | HttpOk r \<Rightarrow> (s, Some r));
          s = (case response of
                 Some r \<Rightarrow>
                   s\<lparr>paymentResult := Some r,
                     status := (if payment_status r = PAYMENT_COMPLETED then COMPLETED else FAILED)\<rparr>
               | None \<Rightarrow> s)
      in s\<lparr>paymentForm := enable (paymentForm s)\<rparr>)"

text \<open>
  One whole submission with nothing else in between: the call, then the token promise
  settling, then, if the request was sent, its answer.
\<close>

definition onSubmit_complete ::
  "js_string option \<Rightarrow> js_string option \<Rightarrow> 'n ProcessPaymentResponse http_outcome \<Rightarrow>
   'n CheckoutComponent \<Rightarrow> 'n CheckoutComponent" where
  "onSubmit_complete token uuid outcome s =
     (if paymentForm_invalid (paymentForm s) then onSubmit s
      else
        let s1 = onSubmit s;
            s2 = onSubmit_tokenSettled token uuid s1
        in case onSubmit_try token uuid s1 of
             Inl e \<Rightarrow> s2
           | Inr call \<Rightarrow> onSubmit_paymentSettled outcome s2)"

subsection \<open>The formatters and retry\<close>

definition formatCardNumber :: "js_string \<Rightarrow> 'n CheckoutComponent \<Rightarrow> 'n CheckoutComponent" where
  "formatCardNumber input_value s =
     s\<lparr>paymentForm :=
         (paymentForm s)\<lparr>cardNumber :=
           setValue (formatCardNumber_value input_value) (cardNumber (paymentForm s))\<rparr>\<rparr>"

definition formatExpiryDate :: "js_string \<Rightarrow> 'n CheckoutComponent \<Rightarrow> 'n CheckoutComponent" where
  "formatExpiryDate input_value s =
     s\<lparr>paymentForm :=
         (paymentForm s)\<lparr>expiryDate :=
           setValue (formatExpiryDate_value input_value) (expiryDate (paymentForm s))\<rparr>\<rparr>"

definition retry :: "'n CheckoutComponent \<Rightarrow> 'n CheckoutComponent" where
  "retry s = s\<lparr>status := READY_TO_PAY, paymentResult := None, errorMessage := None\<rparr>"

section \<open>The component as a state machine\<close>

text \<open>
  What can happen to a component: the route emits its parameters, a method is called
  from the template, the user types into a field, and an awaited operation settles.
  An operation can settle only while it is pending. Typing into the card-number and
  expiry fields runs the formatters; the other fields take the text as it is.

  The flag \<open>ui\<close> restricts the calls to the states of the transition table:
  \<open>onSubmit\<close> in \<open>READY_TO_PAY\<close>, \<open>retry\<close> in \<open>FAILED\<close> and \<open>ERROR_RETRYABLE\<close>.
  Without it every method can be called in every state.
\<close>

datatype 'n event =
    RouteParams "js_string option"
  | LoadLink js_string
  | LinkSettled js_string "'n PaymentLinkWithPreviewResponse http_outcome"
  | Search
  | Submit
  | TokenSettled "js_string option" "js_string option"
  | PaymentSettled "'n ProcessPaymentResponse http_outcome"
  | Retry
  | InputCardNumber js_string
  | InputExpiryDate js_string
  | InputCvc js_string
  | InputCardHolder js_string
  | InputSearch js_string

fun step :: "bool \<Rightarrow> 'n event \<Rightarrow> 'n CheckoutComponent \<Rightarrow> 'n CheckoutComponent option" where
  "step ui (RouteParams p) s = Some (ngOnInit_params p s)"
| "step ui (LoadLink i) s = Some (loadLink i s)"
| "step ui (LinkSettled i outcome) s =
     (if LinkPending i \<in> set (pending s) then Some (loadLink_settled i outcome s) else None)"
| "step ui Search s = Some (search s)"
| "step ui Submit s =
     (if ui \<longrightarrow> status s = READY_TO_PAY then Some (onSubmit s) else None)"
| "step ui (TokenSettled token uuid) s =
     (if TokenPending \<in> set (pending s) then Some (onSubmit_tokenSettled token uuid s) else None)"
| "step ui (PaymentSettled outcome) s =
     (if PaymentPending \<in> set (pending s) then Some (onSubmit_paymentSettled outcome s) else None)"
| "step ui Retry s =
     (if ui \<longrightarrow> status s = FAILED \<or> status s = ERROR_RETRYABLE then Some (retry s) else None)"
| "step ui (InputCardNumber v) s = Some (formatCardNumber v s)"
| "step ui (InputExpiryDate v) s = Some (formatExpiryDate v s)"
| "step ui (InputCvc v) s =
     Some (s\<lparr>paymentForm := (paymentForm s)\<lparr>cvc := setValue v (cvc (paymentForm s))\<rparr>\<rparr>)"
| "step ui (InputCardHolder v) s =
     Some (s\<lparr>paymentForm :=
              (paymentForm s)\<lparr>cardHolder := setValue v (cardHolder (paymentForm s))\<rparr>\<rparr>)"
| "step ui (InputSearch v) s = Some (s\<lparr>searchControl := setValue v (searchControl s)\<rparr>)"

fun run :: "bool \<Rightarrow> 'n event list \<Rightarrow> 'n CheckoutComponent \<Rightarrow> 'n CheckoutComponent option" where
  "run ui [] s = Some s"
| "run ui (e # es) s = (case step ui e s of None \<Rightarrow> None | Some s' \<Rightarrow> run ui es s')"

definition reachable :: "bool \<Rightarrow> 'n CheckoutComponent \<Rightarrow> bool" where
  "reachable ui s = (\<exists>es. run ui es initial = Some s)"

text \<open>A submission is in flight while its token or its payment request is pending.\<close>

definition submission_in_flight :: "'n CheckoutComponent \<Rightarrow> bool" where
  "submission_in_flight s =
     (TokenPending \<in> set (pending s) \<or> PaymentPending \<in> set (pending s))"

subsection \<open>Invariants\<close>

text \<open>The form is disabled only while a submission is in flight.\<close>

definition enabled_at_rest :: "'n CheckoutComponent \<Rightarrow> bool" where
  "enabled_at_rest s = (submission_in_flight s \<or> \<not> disabled (paymentForm s))"

text \<open>A finished payment has its result.\<close>

definition result_present :: "'n CheckoutComponent \<Rightarrow> bool" where
  "result_present s =
     ((status s = COMPLETED \<or> status s = FAILED) \<longrightarrow> paymentResult s \<noteq> None)"

text \<open>
  The statuses before a link is loaded. While no link is loaded the component is in one
  of them and no submission is in flight.
\<close>

fun early_status :: "CheckoutStatus \<Rightarrow> bool" where
  "early_status INITIALIZING = True"
| "early_status AWAITING_INPUT = True"
| "early_status LOADING_LINK = True"
| "early_status LINK_NOT_FOUND = True"
| "early_status st = False"

definition link_present :: "'n CheckoutComponent \<Rightarrow> bool" where
  "link_present s =
     (paymentLink s = None \<longrightarrow> early_status (status s) \<and> \<not> submission_in_flight s)"

text \<open>
  A lookup is stale when its link arrives while a payment result is stored. A run has
  fresh lookups when none of its events is a stale lookup in the state where it happens.
\<close>

definition stale_lookup :: "'n event \<Rightarrow> 'n CheckoutComponent \<Rightarrow> bool" where
  "stale_lookup e s =
     (case e of
        LinkSettled i (HttpOk link) \<Rightarrow> paymentResult s \<noteq> None
      | _ \<Rightarrow> False)"

fun fresh_lookups :: "bool \<Rightarrow> 'n event list \<Rightarrow> 'n CheckoutComponent \<Rightarrow> bool" where
  "fresh_lookups ui [] s = True"
| "fresh_lookups ui (e # es) s =
     (\<not> stale_lookup e s \<and>
      (case step ui e s of None \<Rightarrow> True | Some s' \<Rightarrow> fresh_lookups ui es s'))"

text \<open>In \<open>READY_TO_PAY\<close> no payment result is stored.\<close>

definition ready_unpaid :: "'n CheckoutComponent \<Rightarrow> bool" where
  "ready_unpaid s = (status s = READY_TO_PAY \<longrightarrow> paymentResult s = None)"

subsection \<open>The server-supplied message as the specification words it\<close>

text \<open>
  The error body carries a string \<open>message\<close> field: it is an object, it has a field
  \<open>message\<close>, and the field is a string.
\<close>

definition spec_server_message :: "js_value \<Rightarrow> js_string option" where
  "spec_server_message body =
     (case body of
        JObject props \<Rightarrow>
          (case map_of props (js ''message'') of Some (JString m) \<Rightarrow> Some m | _ \<Rightarrow> None)
      | _ \<Rightarrow> None)"

subsection \<open>Sample data\<close>

text \<open>
  A link and two payment results as the tests of the repository build them (amounts in
  whole dollars), a component that has loaded the link and holds a valid card, and the
  events that lead there.
\<close>

definition sample_link :: "js_string \<Rightarrow> int PaymentLinkWithPreviewResponse" where
  "sample_link i =
     \<lparr>link_id = i, merchantId = js ''merchant123'', link_status = LINK_ACTIVE,
      amountUsd = 100, description = js ''Test payment'', expiresAt = None,
      createdAt = js ''2024-01-01T00:00:00Z'', updatedAt = js ''2024-01-01T00:00:00Z'',
      checkoutUrl = js ''https://example.com/checkout/link123'',
      feePreview =
        \<lparr>fxRate = 20, totalFeesUsd = 5, recipientAmountMxn = 2050,
         breakdown =
           \<lparr>fixedFeeUsd = 2, variableFeeUsd = 2, fxMarkupUsd = 1, firstTxDiscountUsd = 0\<rparr>\<rparr>\<rparr>"

definition sample_result :: "PaymentStatus \<Rightarrow> int ProcessPaymentResponse" where
  "sample_result st =
     \<lparr>transactionId = js ''txn123'', payment_status = st, paymentLinkId = js ''link123'',
      response_pspProvider = STRIPE, response_amountUsd = 100,
      response_recipientAmountMxn = 2050, fxRateApplied = 20, response_totalFeesUsd = 5\<rparr>"

definition sample_ready_events :: "int event list" where
  "sample_ready_events =
     [RouteParams (Some (js ''link123'')),
      LinkSettled (js ''link123'') (HttpOk (sample_link (js ''link123''))),
      InputCardNumber (js ''4532015112830366''),
      InputExpiryDate (js ''1230''),
      InputCvc (js ''123'')]"

definition sample_ready :: "int CheckoutComponent" where
  "sample_ready =
     \<lparr>status = READY_TO_PAY,
      paymentLink = Some (sample_link (js ''link123'')),
      paymentResult = None,
      errorMessage = None,
      paymentForm =
        \<lparr>cardNumber = \<lparr>control_value = js ''4532 0151 1283 0366'', touched = False\<rparr>,
         expiryDate = \<lparr>control_value = js ''12 / 30'', touched = False\<rparr>,
         cvc = \<lparr>control_value = js ''123'', touched = False\<rparr>,
         cardHolder = \<lparr>control_value = js ''Juan P'' @ [195, 169] @ js ''rez'', touched = False\<rparr>,
         disabled = False\<rparr>,
      searchControl = \<lparr>control_value = [], touched = False\<rparr>,
      calls = [GetPaymentLink (js ''link123'')],
      pending = []\<rparr>"

text \<open>
  The sample component pays, and the payment is completed; then the route changes to a
  second link, which is loaded.
\<close>

definition sample_paid_events :: "int event list" where
  "sample_paid_events =
     sample_ready_events @
     [Submit,
      TokenSettled (Some (js ''tok'')) (Some (js ''key'')),
      PaymentSettled (HttpOk (sample_result PAYMENT_COMPLETED))]"

definition sample_paid :: "int CheckoutComponent" where
  "sample_paid =
     onSubmit_complete (Some (js ''tok'')) (Some (js ''key''))
       (HttpOk (sample_result PAYMENT_COMPLETED)) sample_ready"

definition sample_next_link_events :: "int event list" where
  "sample_next_link_events =
     sample_paid_events @
     [RouteParams (Some (js ''link456'')),
      LinkSettled (js ''link456'') (HttpOk (sample_link (js ''link456'')))]"

subsection \<open>The card-number format as the specification words it\<close>

text \<open>A separating space is inserted every 4 digits: between two groups, not behind the last.\<close>

fun group4 :: "js_string \<Rightarrow> js_string" where
  "group4 (a # b # c # d # e # rest) = a # b # c # d # 32 # group4 (e # rest)"
| "group4 xs = xs"

section \<open>JavaScript numbers\<close>













subsection \<open>The total as the specification words it\<close>





section \<open>The Luhn validator: proofs\<close>

lemma luhn_loop_sum:
  assumes "n \<le> length v" and "list_all is_digit v" and "sd = odd (length v - n)"
  shows "luhn_loop v n (Some acc) sd =
           Some (acc + (\<Sum>i < n. luhn_term (length v - Suc i) (v ! i - 48)))"
  using assms
proof (induction n arbitrary: acc sd)
  case 0
  then show ?case by simp
next
  case (Suc n)
  from Suc.prems have dig: "is_digit (v ! n)"
    by (simp add: list_all_length)
  from Suc.prems have par: "(\<not> sd) = odd (length v - n)"
    by (simp add: Suc_diff_Suc)
  have step: "luhn_loop v (Suc n) (Some acc) sd =
                luhn_loop v n (Some (acc + luhn_term (length v - Suc n) (v ! n - 48))) (\<not> sd)"
    using dig Suc.prems(3)
    by (simp add: parseInt_def luhn_term_def Let_def mult.commute)
  from Suc.prems have "n \<le> length v" by simp
  from Suc.IH [OF this Suc.prems(2) par] step show ?case
    by simp
qed

lemma luhn_sum_reindex:
  "(\<Sum>i < length v. luhn_term (length v - Suc i) (v ! i - 48)) =
   luhn_checksum_spec (digit_values v)"
proof -
  have "(\<Sum>p < length v. luhn_term p (rev (digit_values v) ! p)) =
        (\<Sum>p < length v. luhn_term p (v ! (length v - Suc p) - 48))"
    by (rule sum.cong) (simp_all add: digit_values_def rev_nth rev_map [symmetric])
  also have "\<dots> = (\<Sum>i < length v. luhn_term (length v - Suc i) (v ! i - 48))"
    by (rule sum.reindex_bij_witness
          [where i = "\<lambda>i. length v - Suc i" and j = "\<lambda>p. length v - Suc p"]) auto
  finally show ?thesis
    by (simp add: luhn_checksum_spec_def digit_values_def)
qed

lemma luhn_loop_spec:
  assumes "list_all is_digit v"
  shows "luhn_loop v (length v) (Some 0) False = Some (luhn_checksum_spec (digit_values v))"
proof -
  have "luhn_loop v (length v) (Some 0) False =
          Some (0 + (\<Sum>i < length v. luhn_term (length v - Suc i) (v ! i - 48)))"
    by (rule luhn_loop_sum) (simp_all add: assms)
  then show ?thesis
    by (simp only: luhn_sum_reindex add_0)
qed

lemma luhnValidator_digits:
  assumes "raw \<noteq> []" and "test_digits (replace_spaces raw)"
  shows "luhnValidator (Some raw) =
           (if luhn_checksum_spec (digit_values (replace_spaces raw)) mod 10 = 0
            then None else Some LuhnError)"
  using assms
  by (simp add: luhnValidator_def Let_def luhn_loop_spec test_digits_def)

lemma luhnValidator_not_digits:
  assumes "raw \<noteq> []" and "\<not> test_digits (replace_spaces raw)"
  shows "luhnValidator (Some raw) = Some LuhnError"
  using assms
  by (simp add: luhnValidator_def Let_def)

lemma replace_spaces_nonempty: "replace_spaces s \<noteq> [] \<Longrightarrow> s \<noteq> []"
  by (auto simp: replace_spaces_def)

lemma replace_spaces_idem: "replace_spaces (replace_spaces s) = replace_spaces s"
  by (simp add: replace_spaces_def)

lemma luhnValidator_strip:
  assumes "replace_spaces s \<noteq> []"
  shows "luhnValidator (Some s) = luhnValidator (Some (replace_spaces s))"
proof (cases "test_digits (replace_spaces s)")
  case True
  with assms show ?thesis
    by (simp add: luhnValidator_digits replace_spaces_nonempty replace_spaces_idem)
next
  case False
  with assms show ?thesis
    by (simp add: luhnValidator_not_digits replace_spaces_nonempty replace_spaces_idem)
qed

subsection \<open>Unfolding the model on concrete data\<close>

lemmas string_defs =
  js_def is_digit_def is_space_def replace_spaces_def replace_non_digits_def
  test_digits_def trim_def substring_to_def substring_from_def parseInt_def

lemmas validator_defs =
  luhnValidator_def required_ok_def minLength_ok_def maxLength_ok_def pattern_ok_def
  month_matches_def year_matches_def expiry_pattern_test_def cardNumber_valid_def
  expiryDate_valid_def cvc_valid_def cardHolder_valid_def searchControl_valid_def
  paymentForm_invalid_def searchControl_invalid_def

lemmas form_defs =
  markAsTouched_def markAllAsTouched_def setValue_def formatCardNumber_value_def
  formatExpiryDate_value_def disable_def enable_def

lemmas component_defs =
  loadLink_def loadLink_settled_def ngOnInit_params_def search_def onSubmit_def
  onSubmit_try_def onSubmit_catch_def onSubmit_tokenSettled_def
  onSubmit_paymentSettled_def onSubmit_complete_def formatCardNumber_def
  formatExpiryDate_def retry_def

subsection \<open>C5: the validator computes the Luhn checksum\<close>

text \<open>
  Claim C5. For every input whose white-space-stripped form is a non-empty string of
  digits, the validator reports valid exactly when the checksum of the specification
  (digits numbered from the right, the digits at odd positions doubled, 9 subtracted
  from a doubled digit above 9) is 0 modulo 10. Two inputs with the same non-empty
  stripped form get the same verdict, so embedded white space never changes it. Every
  input whose stripped form is non-empty and holds a non-digit is reported invalid.
  \<open>4532015112830366\<close> and \<open>79927398713\<close> are valid, \<open>1234567890123456\<close> and
  \<open>79927398714\<close> are invalid.
\<close>

theorem luhnValidator_checksum:
  "(\<forall>s. replace_spaces s \<noteq> [] \<and> list_all is_digit (replace_spaces s) \<longrightarrow>
        (luhnValidator (Some s) = None) =
        (luhn_checksum_spec (digit_values (replace_spaces s)) mod 10 = 0)) \<and>
   (\<forall>s t. replace_spaces s \<noteq> [] \<and> replace_spaces t = replace_spaces s \<longrightarrow>
        luhnValidator (Some t) = luhnValidator (Some s)) \<and>
   (\<forall>s. replace_spaces s \<noteq> [] \<and> \<not> list_all is_digit (replace_spaces s) \<longrightarrow>
        luhnValidator (Some s) = Some LuhnError) \<and>
   luhnValidator (Some (js ''4532015112830366'')) = None \<and>
   luhnValidator (Some (js ''79927398713'')) = None \<and>
   luhnValidator (Some (js ''1234567890123456'')) = Some LuhnError \<and>
   luhnValidator (Some (js ''79927398714'')) = Some LuhnError"
proof (intro conjI allI impI)
  fix s
  assume "replace_spaces s \<noteq> [] \<and> list_all is_digit (replace_spaces s)"
  then show "(luhnValidator (Some s) = None) =
             (luhn_checksum_spec (digit_values (replace_spaces s)) mod 10 = 0)"
    by (simp add: luhnValidator_digits replace_spaces_nonempty test_digits_def)
next
  fix s t
  assume "replace_spaces s \<noteq> [] \<and> replace_spaces t = replace_spaces s"
  then show "luhnValidator (Some t) = luhnValidator (Some s)"
    using luhnValidator_strip [of s] luhnValidator_strip [of t] by simp
next
  fix s
  assume "replace_spaces s \<noteq> [] \<and> \<not> list_all is_digit (replace_spaces s)"
  then show "luhnValidator (Some s) = Some LuhnError"
    by (simp add: luhnValidator_not_digits replace_spaces_nonempty test_digits_def)
next
  show "luhnValidator (Some (js ''4532015112830366'')) = None"
    by (simp add: luhnValidator_def string_defs Let_def)
next
  show "luhnValidator (Some (js ''79927398713'')) = None"
    by (simp add: luhnValidator_def string_defs Let_def)
next
  show "luhnValidator (Some (js ''1234567890123456'')) = Some LuhnError"
    by (simp add: luhnValidator_def string_defs Let_def)
next
  show "luhnValidator (Some (js ''79927398714'')) = Some LuhnError"
    by (simp add: luhnValidator_def string_defs Let_def)
qed

text \<open>
  The theorem at \<open>7992 7398 713\<close> (its checksum is 70), at the same digits without the
  spaces, and at \<open>4532 x\<close>.
\<close>

theorem luhnValidator_checksum_witness:
  "replace_spaces (js ''7992 7398 713'') \<noteq> [] \<and>
   list_all is_digit (replace_spaces (js ''7992 7398 713'')) \<and>
   luhn_checksum_spec (digit_values (replace_spaces (js ''7992 7398 713''))) = 70 \<and>
   luhnValidator (Some (js ''7992 7398 713'')) = None \<and>
   replace_spaces (js ''79927398713'') = replace_spaces (js ''7992 7398 713'') \<and>
   luhnValidator (Some (js ''79927398713'')) = luhnValidator (Some (js ''7992 7398 713'')) \<and>
   replace_spaces (js ''4532 x'') \<noteq> [] \<and>
   \<not> list_all is_digit (replace_spaces (js ''4532 x'')) \<and>
   luhnValidator (Some (js ''4532 x'')) = Some LuhnError"
proof -
  have h1: "replace_spaces (js ''7992 7398 713'') \<noteq> [] \<and>
            list_all is_digit (replace_spaces (js ''7992 7398 713''))"
    by (simp add: string_defs)
  have sum70: "luhn_checksum_spec (digit_values (replace_spaces (js ''7992 7398 713''))) = 70"
    by (simp add: luhn_checksum_spec_def digit_values_def luhn_term_def string_defs)
  have h2: "replace_spaces (js ''7992 7398 713'') \<noteq> [] \<and>
            replace_spaces (js ''79927398713'') = replace_spaces (js ''7992 7398 713'')"
    by (simp add: string_defs)
  have h3: "replace_spaces (js ''4532 x'') \<noteq> [] \<and>
            \<not> list_all is_digit (replace_spaces (js ''4532 x''))"
    by (simp add: string_defs)
  from luhnValidator_checksum h1 sum70
  have c1: "luhnValidator (Some (js ''7992 7398 713'')) = None"
    by simp
  from luhnValidator_checksum h2
  have c2: "luhnValidator (Some (js ''79927398713'')) =
            luhnValidator (Some (js ''7992 7398 713''))"
    by blast
  from luhnValidator_checksum h3
  have c3: "luhnValidator (Some (js ''4532 x'')) = Some LuhnError"
    by blast
  from h1 sum70 c1 h2 c2 h3 c3 show ?thesis
    by blast
qed

subsection \<open>C9: strings of white space\<close>

text \<open>
  Claim C9 says that the validator returns no error for every string whose
  white-space-stripped remainder is empty. It does so for the empty string; a single
  space is reported invalid.
\<close>

theorem luhnValidator_blank_counterexample:
  "replace_spaces (js '' '') = [] \<and> luhnValidator (Some (js '' '')) = Some LuhnError"
  by (simp add: luhnValidator_def string_defs)

text \<open>
  Claim C9, amended. The validator returns no error for \<open>null\<close> and for the empty
  string, which are the values its first test lets through; every string that is not
  empty and consists of white space only is reported invalid.
\<close>

theorem luhnValidator_empty_or_blank:
  "luhnValidator None = None \<and>
   luhnValidator (Some []) = None \<and>
   (\<forall>s. s \<noteq> [] \<and> replace_spaces s = [] \<longrightarrow> luhnValidator (Some s) = Some LuhnError)"
  by (simp add: luhnValidator_def test_digits_def)

theorem luhnValidator_empty_or_blank_witness:
  "js ''  '' @ [9, 160] \<noteq> [] \<and> replace_spaces (js ''  '' @ [9, 160]) = [] \<and>
   luhnValidator (Some (js ''  '' @ [9, 160])) = Some LuhnError"
proof -
  have h: "js ''  '' @ [9, 160] \<noteq> [] \<and> replace_spaces (js ''  '' @ [9, 160]) = []"
    by (simp add: string_defs)
  with luhnValidator_empty_or_blank
  have "luhnValidator (Some (js ''  '' @ [9, 160])) = Some LuhnError"
    by blast
  with h show ?thesis
    by blast
qed

section \<open>The card-number formatter and the length validators\<close>

lemma digit_not_space: "is_digit c \<Longrightarrow> \<not> is_space c"
  by (auto simp: is_digit_def is_space_def)

lemma is_space_32: "is_space 32"
  by (simp add: is_space_def)

lemma group4_length: "length (group4 d) = length d + (length d - 1) div 4"
  by (induction d rule: group4.induct) simp_all

lemma group4_strip: "list_all is_digit d \<Longrightarrow> replace_spaces (group4 d) = d"
  by (induction d rule: group4.induct) (simp_all add: replace_spaces_def digit_not_space is_space_32)

lemma group4_Nil: "(group4 d = []) = (d = [])"
  by (induction d rule: group4.induct) simp_all

lemma group4_hd: "hd (group4 d) = hd d"
  by (induction d rule: group4.induct) simp_all

lemma group4_last: "d \<noteq> [] \<Longrightarrow> last (group4 d) = last d"
  by (induction d rule: group4.induct) (simp_all add: group4_Nil)
lemma replace_d4_digits:
  "list_all is_digit d \<Longrightarrow>
   replace_d4 d = (if d \<noteq> [] \<and> length d mod 4 = 0 then group4 d @ [32] else group4 d)"
proof (induction d rule: group4.induct)
  case (1 a b c d e rest)
  then show ?case by (simp add: mod_Suc)
qed (simp_all)
lemma trim_core:
  assumes "xs \<noteq> []" and "\<not> is_space (hd xs)" and "\<not> is_space (last xs)"
  shows "trim xs = xs" and "trim (xs @ [32]) = xs"
proof -
  from assms(1,2) have f: "dropWhile is_space xs = xs"
    by (cases xs) simp_all
  from assms(1,3) have r: "dropWhile is_space (rev xs) = rev xs"
    by (cases xs rule: rev_cases) simp_all
  from f r show "trim xs = xs"
    by (simp add: trim_def)
  from assms(1,2) have f': "dropWhile is_space (xs @ [32]) = xs @ [32]"
    by (cases xs) simp_all
  from f' r show "trim (xs @ [32]) = xs"
    by (simp add: trim_def is_space_32)
qed

lemma digits_of_input:
  "list_all is_digit (substring_to 16 (replace_non_digits raw))"
  "length (substring_to 16 (replace_non_digits raw)) \<le> 16"
  by (auto simp: substring_to_def replace_non_digits_def list_all_iff dest: in_set_takeD)

lemma formatCardNumber_value_group4:
  "formatCardNumber_value raw = group4 (substring_to 16 (replace_non_digits raw))"
proof (cases "substring_to 16 (replace_non_digits raw) = []")
  case True
  then show ?thesis
    by (simp add: formatCardNumber_value_def trim_def)
next
  case False
  define d where "d = substring_to 16 (replace_non_digits raw)"
  from False have ne: "d \<noteq> []" by (simp add: d_def)
  have dig: "list_all is_digit d" by (simp add: d_def digits_of_input)
  from ne dig have "is_digit (hd d)" and "is_digit (last d)"
    by (simp_all add: list_all_iff)
  with ne have g: "group4 d \<noteq> []" "\<not> is_space (hd (group4 d))" "\<not> is_space (last (group4 d))"
    by (simp_all add: group4_Nil group4_hd group4_last digit_not_space)
  have "trim (replace_d4 d) = group4 d"
    using trim_core [OF g] by (simp add: replace_d4_digits [OF dig])
  then show ?thesis
    by (simp add: formatCardNumber_value_def d_def)
qed


lemma len_bound:
  fixes n :: nat
  assumes "n \<le> 16"
  shows "(16 \<le> n + (n - 1) div 4 \<and> n + (n - 1) div 4 \<le> 19) = (13 \<le> n)"
proof (cases "n < 13")
  case True
  define q where "q = (n - 1) div 4"
  from True have "n - 1 \<le> 11" by simp
  then have "(n - 1) div 4 \<le> 11 div 4" by (rule div_le_mono)
  then have "q \<le> 2" by (simp add: q_def)
  with True have "(16 \<le> n + q \<and> n + q \<le> 19) = (13 \<le> n)" by linarith
  then show ?thesis by (simp only: q_def)
next
  case False
  with assms have "n = 13 \<or> n = 14 \<or> n = 15 \<or> n = 16" by linarith
  then show ?thesis by (elim disjE) (simp_all only: , simp_all)
qed
lemma replace_spaces_digits: "list_all is_digit d \<Longrightarrow> replace_spaces d = d"
  by (induction d) (simp_all add: replace_spaces_def digit_not_space)

lemma luhnValidator_group4:
  assumes "list_all is_digit d" and "d \<noteq> []"
  shows "(luhnValidator (Some (group4 d)) = None) =
         (luhn_checksum_spec (digit_values d) mod 10 = 0)"
proof -
  from assms have strip: "replace_spaces (group4 d) \<noteq> []"
    by (simp add: group4_strip)
  have "luhnValidator (Some (group4 d)) = luhnValidator (Some (replace_spaces (group4 d)))"
    by (rule luhnValidator_strip [OF strip])
  also have "\<dots> = luhnValidator (Some d)"
    by (simp only: group4_strip [OF assms(1)])
  also have "\<dots> = (if luhn_checksum_spec (digit_values (replace_spaces d)) mod 10 = 0
                    then None else Some LuhnError)"
    by (rule luhnValidator_digits) (simp_all add: assms replace_spaces_digits test_digits_def)
  finally show ?thesis
    by (simp add: replace_spaces_digits [OF assms(1)])
qed

lemma cardNumber_valid_formatted:
  "cardNumber_valid (formatCardNumber_value raw) =
     (13 \<le> length (substring_to 16 (replace_non_digits raw)) \<and>
      luhn_checksum_spec (digit_values (substring_to 16 (replace_non_digits raw))) mod 10 = 0)"
proof -
  define d where "d = substring_to 16 (replace_non_digits raw)"
  have dig: "list_all is_digit d" and le: "length d \<le> 16"
    by (simp_all add: d_def digits_of_input)
  have v: "formatCardNumber_value raw = group4 d"
    by (simp add: d_def formatCardNumber_value_group4)
  have "cardNumber_valid (group4 d) =
          (13 \<le> length d \<and> luhn_checksum_spec (digit_values d) mod 10 = 0)"
  proof (cases "d = []")
    case True
    then show ?thesis
      by (simp add: cardNumber_valid_def required_ok_def)
  next
    case False
    have luhn: "(luhnValidator (Some (group4 d)) = None) =
                (luhn_checksum_spec (digit_values d) mod 10 = 0)"
      by (rule luhnValidator_group4 [OF dig False])
    have len: "(16 \<le> length (group4 d) \<and> length (group4 d) \<le> 19) = (13 \<le> length d)"
      unfolding group4_length by (rule len_bound [OF le])
    have "cardNumber_valid (group4 d) =
            ((16 \<le> length (group4 d) \<and> length (group4 d) \<le> 19) \<and>
             luhnValidator (Some (group4 d)) = None)"
      using False
      by (simp add: cardNumber_valid_def required_ok_def minLength_ok_def maxLength_ok_def
          group4_Nil)
    then show ?thesis
      by (simp only: len luhn)
  qed
  then show ?thesis
    by (simp only: v d_def)
qed


subsection \<open>C7: formatting and validation\<close>

text \<open>
  Claim C7 says that the length bound of the card-number field counts digits, 16 to 19
  of them, so that the spaces of the formatter cannot change the verdict. The bound
  counts the code units of the control's value: thirteen digits with a valid checksum
  are formatted into sixteen code units, and the form accepts them.
\<close>

theorem formatted_cardNumber_counterexample:
  "\<not> paymentForm_invalid
       (paymentForm (formatCardNumber (js ''4222222222222'') sample_ready)) \<and>
   control_value (cardNumber (paymentForm (formatCardNumber (js ''4222222222222'') sample_ready)))
     = js ''4222 2222 2222 2'' \<and>
   length (replace_non_digits (js ''4222 2222 2222 2'')) = 13 \<and>
   paymentForm_invalid
     ((paymentForm sample_ready)
        \<lparr>cardNumber := setValue (js ''4222222222222'') (cardNumber (paymentForm sample_ready))\<rparr>)"
  by (simp add: sample_ready_def formatCardNumber_def string_defs validator_defs form_defs Let_def)

text \<open>
  Claim C7, amended. The card-number field is valid exactly when its value, spaces
  included, has 16 to 19 code units and passes the Luhn check, which alone works on the
  white-space-stripped value. For every raw input, with \<open>d\<close> its digits cut to 16: the
  formatted value is \<open>d\<close> with a space between the groups of four, and an enabled form
  accepts it exactly when \<open>d\<close> has 13 digits at least, \<open>d\<close> has a Luhn checksum of 0
  modulo 10, and the other three fields pass their validators.
\<close>

theorem formatted_cardNumber_accepted:
  "(\<forall>v. cardNumber_valid v =
          (16 \<le> length v \<and> length v \<le> 19 \<and> luhnValidator (Some v) = None)) \<and>
   (\<forall>raw. formatCardNumber_value raw = group4 (substring_to 16 (replace_non_digits raw))) \<and>
   (\<forall>raw s.
      (\<not> paymentForm_invalid (paymentForm (formatCardNumber raw s))) =
      (disabled (paymentForm s) \<or>
       13 \<le> length (substring_to 16 (replace_non_digits raw)) \<and>
       luhn_checksum_spec (digit_values (substring_to 16 (replace_non_digits raw))) mod 10 = 0 \<and>
       expiryDate_valid (control_value (expiryDate (paymentForm s))) \<and>
       cvc_valid (control_value (cvc (paymentForm s))) \<and>
       cardHolder_valid (control_value (cardHolder (paymentForm s)))))"
proof (intro conjI allI)
  fix v
  show "cardNumber_valid v =
          (16 \<le> length v \<and> length v \<le> 19 \<and> luhnValidator (Some v) = None)"
    by (auto simp: cardNumber_valid_def required_ok_def minLength_ok_def maxLength_ok_def)
next
  fix raw
  show "formatCardNumber_value raw = group4 (substring_to 16 (replace_non_digits raw))"
    by (rule formatCardNumber_value_group4)
next
  fix raw and s :: "'a CheckoutComponent"
  show "(\<not> paymentForm_invalid (paymentForm (formatCardNumber raw s))) =
        (disabled (paymentForm s) \<or>
         13 \<le> length (substring_to 16 (replace_non_digits raw)) \<and>
         luhn_checksum_spec (digit_values (substring_to 16 (replace_non_digits raw))) mod 10 = 0 \<and>
         expiryDate_valid (control_value (expiryDate (paymentForm s))) \<and>
         cvc_valid (control_value (cvc (paymentForm s))) \<and>
         cardHolder_valid (control_value (cardHolder (paymentForm s))))"
    by (auto simp add: paymentForm_invalid_def formatCardNumber_def setValue_def
        cardNumber_valid_formatted)
qed

text \<open>
  The theorem at the sample component and the inputs \<open>4222222222222\<close> (13 digits,
  accepted) and \<open>422222222222\<close> (12 digits, refused).
\<close>

theorem formatted_cardNumber_accepted_witness:
  "\<not> disabled (paymentForm sample_ready) \<and>
   13 \<le> length (substring_to 16 (replace_non_digits (js ''4222222222222''))) \<and>
   \<not> paymentForm_invalid (paymentForm (formatCardNumber (js ''4222222222222'') sample_ready)) \<and>
   \<not> 13 \<le> length (substring_to 16 (replace_non_digits (js ''422222222222''))) \<and>
   paymentForm_invalid (paymentForm (formatCardNumber (js ''422222222222'') sample_ready))"
proof -
  have en: "\<not> disabled (paymentForm sample_ready)"
    by (simp add: sample_ready_def)
  have others:
    "expiryDate_valid (control_value (expiryDate (paymentForm sample_ready))) \<and>
     cvc_valid (control_value (cvc (paymentForm sample_ready))) \<and>
     cardHolder_valid (control_value (cardHolder (paymentForm sample_ready)))"
    by (simp add: sample_ready_def string_defs validator_defs)
  have d13: "13 \<le> length (substring_to 16 (replace_non_digits (js ''4222222222222'')))"
    by (simp add: string_defs)
  have luhn13:
    "luhn_checksum_spec
       (digit_values (substring_to 16 (replace_non_digits (js ''4222222222222'')))) mod 10 = 0"
    by (simp add: luhn_checksum_spec_def digit_values_def luhn_term_def string_defs)
  have d12: "\<not> 13 \<le> length (substring_to 16 (replace_non_digits (js ''422222222222'')))"
    by (simp add: string_defs)
  note at13 = formatted_cardNumber_accepted
    [where 'a = int, THEN conjunct2, THEN conjunct2, rule_format,
     of "js ''4222222222222''" sample_ready]
  note at12 = formatted_cardNumber_accepted
    [where 'a = int, THEN conjunct2, THEN conjunct2, rule_format,
     of "js ''422222222222''" sample_ready]
  from at13 en others d13 luhn13
  have a13: "\<not> paymentForm_invalid
                 (paymentForm (formatCardNumber (js ''4222222222222'') sample_ready))"
    by blast
  from at12 en d12
  have a12: "paymentForm_invalid
               (paymentForm (formatCardNumber (js ''422222222222'') sample_ready))"
    by blast
  from en d13 a13 d12 a12 show ?thesis
    by blast
qed

subsection \<open>C4: retry\<close>

text \<open>
  Claim C4. In every state whose status is \<open>FAILED\<close> or \<open>ERROR_RETRYABLE\<close>, \<open>retry()\<close>
  sets the status to \<open>READY_TO_PAY\<close> and clears the stored payment result and the error
  message, whichever failure produced the state.
\<close>

theorem retry_resets:
  "status s = FAILED \<or> status s = ERROR_RETRYABLE \<Longrightarrow>
   status (retry s) = READY_TO_PAY \<and> paymentResult (retry s) = None \<and>
   errorMessage (retry s) = None"
  by (simp add: retry_def)

text \<open>
  The theorem after a declined payment, after a transport error, and after a
  submission without a loaded link.
\<close>

lemma sample_ready_valid: "\<not> paymentForm_invalid (paymentForm sample_ready)"
  by (simp add: sample_ready_def string_defs validator_defs Let_def)

lemma sample_declined:
  "status (onSubmit_complete (Some (js ''tok'')) (Some (js ''key''))
             (HttpOk (sample_result PAYMENT_FAILED)) sample_ready) = FAILED"
  using sample_ready_valid
  by (simp add: onSubmit_complete_def onSubmit_def onSubmit_try_def onSubmit_tokenSettled_def
      onSubmit_paymentSettled_def Let_def sample_ready_def sample_link_def sample_result_def js_def)

lemma sample_transport_error:
  "status (onSubmit_complete (Some (js ''tok'')) (Some (js ''key''))
             (HttpError JNull) sample_ready) = ERROR_RETRYABLE"
  using sample_ready_valid
  by (simp add: onSubmit_complete_def onSubmit_def onSubmit_try_def onSubmit_tokenSettled_def
      onSubmit_paymentSettled_def Let_def sample_ready_def sample_link_def js_def)

lemma sample_missing_link:
  "status (onSubmit_complete (Some (js ''tok'')) (Some (js ''key''))
             (HttpError JNull) (sample_ready\<lparr>paymentLink := None\<rparr>)) = ERROR_RETRYABLE"
  using sample_ready_valid
  by (simp add: onSubmit_complete_def onSubmit_def onSubmit_try_def onSubmit_tokenSettled_def
      onSubmit_catch_def Let_def)

theorem retry_resets_witness:
  "status (onSubmit_complete (Some (js ''tok'')) (Some (js ''key''))
             (HttpOk (sample_result PAYMENT_FAILED)) sample_ready) = FAILED \<and>
   status (retry (onSubmit_complete (Some (js ''tok'')) (Some (js ''key''))
             (HttpOk (sample_result PAYMENT_FAILED)) sample_ready)) = READY_TO_PAY \<and>
   paymentResult (retry (onSubmit_complete (Some (js ''tok'')) (Some (js ''key''))
             (HttpOk (sample_result PAYMENT_FAILED)) sample_ready)) = None \<and>
   errorMessage (retry (onSubmit_complete (Some (js ''tok'')) (Some (js ''key''))
             (HttpOk (sample_result PAYMENT_FAILED)) sample_ready)) = None \<and>
   status (onSubmit_complete (Some (js ''tok'')) (Some (js ''key''))
             (HttpError JNull) sample_ready) = ERROR_RETRYABLE \<and>
   status (retry (onSubmit_complete (Some (js ''tok'')) (Some (js ''key''))
             (HttpError JNull) sample_ready)) = READY_TO_PAY \<and>
   errorMessage (retry (onSubmit_complete (Some (js ''tok'')) (Some (js ''key''))
             (HttpError JNull) sample_ready)) = None \<and>
   status (onSubmit_complete (Some (js ''tok'')) (Some (js ''key''))
             (HttpError JNull) (sample_ready\<lparr>paymentLink := None\<rparr>)) = ERROR_RETRYABLE \<and>
   status (retry (onSubmit_complete (Some (js ''tok'')) (Some (js ''key''))
             (HttpError JNull) (sample_ready\<lparr>paymentLink := None\<rparr>))) = READY_TO_PAY \<and>
   errorMessage (retry (onSubmit_complete (Some (js ''tok'')) (Some (js ''key''))
             (HttpError JNull) (sample_ready\<lparr>paymentLink := None\<rparr>))) = None"
  using retry_resets [OF disjI1, OF sample_declined]
    retry_resets [OF disjI2, OF sample_transport_error]
    retry_resets [OF disjI2, OF sample_missing_link]
    sample_declined sample_transport_error sample_missing_link
  by (simp only: simp_thms)

subsection \<open>C8: local validation errors\<close>

text \<open>
  Claim C8. If the payment form fails local validation, \<open>onSubmit\<close> marks the four
  fields touched and changes nothing else: status, payment link, payment result and
  error message stay as they are, no call is made to the tokenizer or the gateway and
  nothing is awaited, and the whole submission ends there. If the search field fails
  its validation (required, minimum length 5, that is fewer than 5 code units),
  \<open>search()\<close> marks it touched and does not navigate.
\<close>

theorem invalid_input_rejected:
  "(\<forall>s :: 'n CheckoutComponent. paymentForm_invalid (paymentForm s) \<longrightarrow>
      onSubmit s = s\<lparr>paymentForm := markAllAsTouched (paymentForm s)\<rparr> \<and>
      (\<forall>token uuid outcome. onSubmit_complete token uuid outcome s = onSubmit s) \<and>
      status (onSubmit s) = status s \<and>
      paymentLink (onSubmit s) = paymentLink s \<and>
      paymentResult (onSubmit s) = paymentResult s \<and>
      errorMessage (onSubmit s) = errorMessage s \<and>
      searchControl (onSubmit s) = searchControl s \<and>
      calls (onSubmit s) = calls s \<and>
      pending (onSubmit s) = pending s \<and>
      touched (cardNumber (paymentForm (onSubmit s))) \<and>
      touched (expiryDate (paymentForm (onSubmit s))) \<and>
      touched (cvc (paymentForm (onSubmit s))) \<and>
      touched (cardHolder (paymentForm (onSubmit s))) \<and>
      control_value (cardNumber (paymentForm (onSubmit s))) =
        control_value (cardNumber (paymentForm s)) \<and>
      control_value (expiryDate (paymentForm (onSubmit s))) =
        control_value (expiryDate (paymentForm s)) \<and>
      control_value (cvc (paymentForm (onSubmit s))) = control_value (cvc (paymentForm s)) \<and>
      control_value (cardHolder (paymentForm (onSubmit s))) =
        control_value (cardHolder (paymentForm s)) \<and>
      disabled (paymentForm (onSubmit s)) = disabled (paymentForm s)) \<and>
   (\<forall>s :: 'n CheckoutComponent. searchControl_invalid (searchControl s) \<longrightarrow>
      search s = s\<lparr>searchControl := markAsTouched (searchControl s)\<rparr> \<and>
      calls (search s) = calls s \<and>
      status (search s) = status s \<and>
      touched (searchControl (search s)) \<and>
      control_value (searchControl (search s)) = control_value (searchControl s)) \<and>
   (\<forall>c. searchControl_invalid c = (length (control_value c) < 5))"
proof (intro conjI allI impI)
  fix c
  show "searchControl_invalid c = (length (control_value c) < 5)"
    by (auto simp: searchControl_invalid_def searchControl_valid_def required_ok_def
        minLength_ok_def)
qed (simp_all add: onSubmit_def onSubmit_complete_def search_def markAllAsTouched_def
      markAsTouched_def)

text \<open>
  The theorem at the initial component, whose card number is empty, and at a search
  for \<open>abc\<close>.
\<close>

theorem invalid_input_rejected_witness:
  "paymentForm_invalid (paymentForm (initial :: int CheckoutComponent)) \<and>
   onSubmit (initial :: int CheckoutComponent) =
     (initial :: int CheckoutComponent)\<lparr>paymentForm := markAllAsTouched (paymentForm (initial :: int CheckoutComponent))\<rparr> \<and>
   status (onSubmit (initial :: int CheckoutComponent)) = INITIALIZING \<and>
   calls (onSubmit (initial :: int CheckoutComponent)) = [] \<and>
   searchControl_invalid
     (searchControl (initial\<lparr>searchControl := \<lparr>control_value = js ''abc'', touched = False\<rparr>\<rparr>
        :: int CheckoutComponent)) \<and>
   calls (search (initial\<lparr>searchControl := \<lparr>control_value = js ''abc'', touched = False\<rparr>\<rparr>
        :: int CheckoutComponent)) = [] \<and>
   touched (searchControl
     (search (initial\<lparr>searchControl := \<lparr>control_value = js ''abc'', touched = False\<rparr>\<rparr>
        :: int CheckoutComponent)))"
proof -
  let ?i = "(initial :: int CheckoutComponent)"
  let ?t = "(initial\<lparr>searchControl := \<lparr>control_value = js ''abc'', touched = False\<rparr>\<rparr>
        :: int CheckoutComponent)"
  have inv: "paymentForm_invalid (paymentForm ?i)"
    by (simp add: initial_def paymentForm_invalid_def cardNumber_valid_def required_ok_def)
  have sinv: "searchControl_invalid (searchControl ?t)"
    by (simp add: searchControl_invalid_def searchControl_valid_def required_ok_def
        minLength_ok_def js_def)
  note sub = invalid_input_rejected
    [where 'n = int, THEN conjunct1, rule_format, of ?i, OF inv]
  note sea = invalid_input_rejected
    [where 'n = int, THEN conjunct2, THEN conjunct1, rule_format, of ?t, OF sinv]
  have c0: "calls ?i = []" and s0: "status ?i = INITIALIZING" and c1: "calls ?t = []"
    by (simp_all add: initial_def)
  from sub have a: "onSubmit ?i = ?i\<lparr>paymentForm := markAllAsTouched (paymentForm ?i)\<rparr>"
    by (rule conjunct1)
  from sub have b: "status (onSubmit ?i) = status ?i"
    by blast
  from sub have c: "calls (onSubmit ?i) = calls ?i"
    by blast
  from sea have d: "calls (search ?t) = calls ?t"
    by blast
  from sea have e: "touched (searchControl (search ?t))"
    by blast
  from inv a b c sinv d e c0 s0 c1 show ?thesis
    by (simp only: simp_thms)
qed

subsection \<open>C10: a failed lookup keeps the loaded link\<close>

text \<open>
  Claim C10. A failed lookup, \<open>loadLink(i)\<close> answered by an error, sets the status to
  \<open>LINK_NOT_FOUND\<close> and puts \<open>i\<close> into the search field, and it does not clear a link
  loaded before: the payment link and the total amount derived from it are those of the
  state in which \<open>loadLink\<close> was called.
\<close>

theorem failed_lookup_keeps_link:
  "status (loadLink_settled i (HttpError e) (loadLink i s)) = LINK_NOT_FOUND \<and>
   control_value (searchControl (loadLink_settled i (HttpError e) (loadLink i s))) = i \<and>
   paymentLink (loadLink_settled i (HttpError e) (loadLink i s)) = paymentLink s \<and>
   totalAmount ops (loadLink_settled i (HttpError e) (loadLink i s)) = totalAmount ops s \<and>
   paymentResult (loadLink_settled i (HttpError e) (loadLink i s)) = paymentResult s \<and>
   errorMessage (loadLink_settled i (HttpError e) (loadLink i s)) = errorMessage s"
  by (simp add: loadLink_settled_def loadLink_def setValue_def totalAmount_def)

text \<open>
  At the sample component, which has loaded \<open>link123\<close>, a failed lookup of \<open>nolink\<close>
  leaves that link in place.
\<close>

lemma failed_lookup_sample:
  "paymentLink (loadLink_settled (js ''nolink'') (HttpError JNull)
                  (loadLink (js ''nolink'') sample_ready)) =
     Some (sample_link (js ''link123''))"
  by (simp add: loadLink_settled_def loadLink_def sample_ready_def)

section \<open>Submitting a payment\<close>

lemma error_message_spec:
  "(if truthy body \<and> typeof_is_string (get_message body)
    then string_of (get_message body) else retry_prompt_message) =
   (case spec_server_message body of Some m \<Rightarrow> m | None \<Rightarrow> retry_prompt_message)"
proof (cases body)
  case (JObject props)
  show ?thesis
  proof (cases "map_of props (js ''message'')")
    case None
    with JObject show ?thesis by (simp add: spec_server_message_def)
  next
    case (Some m)
    with JObject show ?thesis by (cases m) (simp_all add: spec_server_message_def)
  qed
qed (simp_all add: spec_server_message_def)

lemma paymentSettled_ok:
  "paymentResult (onSubmit_paymentSettled (HttpOk r) s) = Some r"
  "status (onSubmit_paymentSettled (HttpOk r) s) =
     (if payment_status r = PAYMENT_COMPLETED then COMPLETED else FAILED)"
  "errorMessage (onSubmit_paymentSettled (HttpOk r) s) = errorMessage s"
  by (simp_all add: onSubmit_paymentSettled_def)

lemma paymentSettled_error:
  "status (onSubmit_paymentSettled (HttpError body) s) = ERROR_RETRYABLE"
  "paymentResult (onSubmit_paymentSettled (HttpError body) s) = paymentResult s"
  "errorMessage (onSubmit_paymentSettled (HttpError body) s) =
     Some (case spec_server_message body of Some m \<Rightarrow> m | None \<Rightarrow> retry_prompt_message)"
  by (simp_all add: onSubmit_paymentSettled_def error_message_spec del: if_split
      cong: if_cong)

lemma paymentSettled_enabled:
  "\<not> disabled (paymentForm (onSubmit_paymentSettled outcome s))"
  "pending (onSubmit_paymentSettled outcome s) = remove1 PaymentPending (pending s)"
  "paymentLink (onSubmit_paymentSettled outcome s) = paymentLink s"
  by (cases outcome; simp add: onSubmit_paymentSettled_def enable_def)+

lemma onSubmit_valid:
  assumes "\<not> paymentForm_invalid (paymentForm s)"
  shows "onSubmit s =
           s\<lparr>status := PROCESSING_PAYMENT, paymentForm := disable (paymentForm s),
             errorMessage := None, calls := calls s @ [CreateToken STRIPE],
             pending := pending s @ [TokenPending]\<rparr>"
  using assms by (simp add: onSubmit_def)

lemma onSubmit_try_frame:
  "onSubmit_try token uuid (onSubmit s) = onSubmit_try token uuid s"
  by (simp add: onSubmit_try_def onSubmit_def markAllAsTouched_def markAsTouched_def
      disable_def split: option.split)

lemma onSubmit_try_sent:
  assumes "paymentLink s = Some link" and "link_id link \<noteq> []"
  shows "onSubmit_try (Some tok) (Some key) s =
           Inr (link_id link,
                \<lparr>cardToken = tok, pspProvider = STRIPE, idempotencyKey = key,
                 metadata = [(js ''cardHolder'', control_value (cardHolder (paymentForm s)))]\<rparr>)"
  using assms by (simp add: onSubmit_try_def)

lemma tokenSettled_frame:
  "paymentResult (onSubmit_tokenSettled token uuid s) = paymentResult s"
  "paymentLink (onSubmit_tokenSettled token uuid s) = paymentLink s"
  by (simp_all add: onSubmit_tokenSettled_def onSubmit_catch_def Let_def
      split: sum.split prod.split)

lemma onSubmit_complete_sent:
  assumes "\<not> paymentForm_invalid (paymentForm s)"
    and "paymentLink s = Some link" and "link_id link \<noteq> []"
  shows "onSubmit_complete (Some tok) (Some key) outcome s =
           onSubmit_paymentSettled outcome
             (onSubmit_tokenSettled (Some tok) (Some key) (onSubmit s))"
  using assms
  by (simp add: onSubmit_complete_def Let_def onSubmit_try_frame onSubmit_try_sent)

lemma onSubmit_frame:
  "paymentResult (onSubmit s) = paymentResult s"
  "paymentLink (onSubmit s) = paymentLink s"
  by (simp_all add: onSubmit_def)

subsection \<open>C1: the outcome of the gateway call\<close>

text \<open>
  Claim C1. Take an invocation of \<open>onSubmit\<close> in which the payment form passes local
  validation and a payment link with an id is loaded, and in which the request reaches
  the gateway. If the gateway answers with a payment result, the component stores it and
  sets the status to \<open>COMPLETED\<close> when the result's own status is \<open>COMPLETED\<close>, to
  \<open>FAILED\<close> otherwise. If the call fails at the transport level, the component sets the
  status to \<open>ERROR_RETRYABLE\<close>, stores no payment result, and sets the error message to
  the server's message when the error body carries a string \<open>message\<close> field, to the
  generic message asking to try again otherwise.
\<close>

theorem onSubmit_gateway_outcome:
  assumes "\<not> paymentForm_invalid (paymentForm s)"
    and "paymentLink s = Some link"
    and "link_id link \<noteq> []"
  shows
    "paymentResult (onSubmit_complete (Some tok) (Some key) (HttpOk r) s) = Some r \<and>
     status (onSubmit_complete (Some tok) (Some key) (HttpOk r) s) =
       (if payment_status r = PAYMENT_COMPLETED then COMPLETED else FAILED) \<and>
     status (onSubmit_complete (Some tok) (Some key) (HttpError body) s) = ERROR_RETRYABLE \<and>
     paymentResult (onSubmit_complete (Some tok) (Some key) (HttpError body) s) =
       paymentResult s \<and>
     errorMessage (onSubmit_complete (Some tok) (Some key) (HttpError body) s) =
       Some (case spec_server_message body of
               Some m \<Rightarrow> m
             | None \<Rightarrow> retry_prompt_message)"
  by (simp only: onSubmit_complete_sent [OF assms] paymentSettled_ok paymentSettled_error
      tokenSettled_frame onSubmit_frame simp_thms)

text \<open>
  The theorem at the sample component: a completed and a declined payment, an error
  whose body carries the message \<open>Card declined\<close>, and one whose \<open>message\<close> is a number.
\<close>

lemma sample_ready_link:
  "paymentLink sample_ready = Some (sample_link (js ''link123''))"
  "link_id (sample_link (js ''link123'')) \<noteq> []"
  by (simp_all add: sample_ready_def sample_link_def js_def)

theorem onSubmit_gateway_outcome_witness:
  "\<not> paymentForm_invalid (paymentForm sample_ready) \<and>
   paymentLink sample_ready = Some (sample_link (js ''link123'')) \<and>
   link_id (sample_link (js ''link123'')) \<noteq> [] \<and>
   paymentResult (onSubmit_complete (Some (js ''tok'')) (Some (js ''key''))
      (HttpOk (sample_result PAYMENT_COMPLETED)) sample_ready) =
     Some (sample_result PAYMENT_COMPLETED) \<and>
   status (onSubmit_complete (Some (js ''tok'')) (Some (js ''key''))
      (HttpOk (sample_result PAYMENT_COMPLETED)) sample_ready) = COMPLETED \<and>
   status (onSubmit_complete (Some (js ''tok'')) (Some (js ''key''))
      (HttpOk (sample_result PAYMENT_FAILED)) sample_ready) = FAILED \<and>
   status (onSubmit_complete (Some (js ''tok'')) (Some (js ''key''))
      (HttpError (JObject [(js ''message'', JString (js ''Card declined''))])) sample_ready) =
     ERROR_RETRYABLE \<and>
   paymentResult (onSubmit_complete (Some (js ''tok'')) (Some (js ''key''))
      (HttpError (JObject [(js ''message'', JString (js ''Card declined''))])) sample_ready) =
     None \<and>
   errorMessage (onSubmit_complete (Some (js ''tok'')) (Some (js ''key''))
      (HttpError (JObject [(js ''message'', JString (js ''Card declined''))])) sample_ready) =
     Some (js ''Card declined'') \<and>
   errorMessage (onSubmit_complete (Some (js ''tok'')) (Some (js ''key''))
      (HttpError (JObject [(js ''message'', JNumber 42)])) sample_ready) =
     Some retry_prompt_message"
proof -
  note at = onSubmit_gateway_outcome [OF sample_ready_valid sample_ready_link]
  note completed = at
    [where tok = "js ''tok''" and key = "js ''key''"
       and r = "sample_result PAYMENT_COMPLETED"
       and body = "JObject [(js ''message'', JString (js ''Card declined''))]"]
  note declined = at
    [where tok = "js ''tok''" and key = "js ''key''"
       and r = "sample_result PAYMENT_FAILED"
       and body = "JObject [(js ''message'', JNumber 42)]"]
  have st: "payment_status (sample_result PAYMENT_COMPLETED) = PAYMENT_COMPLETED"
    "payment_status (sample_result PAYMENT_FAILED) \<noteq> PAYMENT_COMPLETED"
    by (simp_all add: sample_result_def)
  have msg:
    "spec_server_message (JObject [(js ''message'', JString (js ''Card declined''))]) =
       Some (js ''Card declined'')"
    "spec_server_message (JObject [(js ''message'', JNumber 42)]) = None"
    by (simp_all add: spec_server_message_def)
  have none: "paymentResult sample_ready = None"
    by (simp add: sample_ready_def)
  from completed declined st msg none sample_ready_valid sample_ready_link
  show ?thesis
    by simp
qed

section \<open>Invariants of the state machine\<close>

lemma run_append:
  "run ui (es @ fs) s = (case run ui es s of None \<Rightarrow> None | Some s' \<Rightarrow> run ui fs s')"
  by (induction es arbitrary: s) (simp_all split: option.split)

lemma run_invariant:
  assumes step: "\<And>e s s'. P s \<Longrightarrow> step ui e s = Some s' \<Longrightarrow> P s'"
    and start: "P s" and run: "run ui es s = Some t"
  shows "P t"
  using start run
proof (induction es arbitrary: s)
  case Nil
  then show ?case by simp
next
  case (Cons e es)
  from Cons.prems(2) obtain s' where e: "step ui e s = Some s'" and es: "run ui es s' = Some t"
    by (auto split: option.splits)
  from step [OF Cons.prems(1) e] es show ?case
    by (rule Cons.IH)
qed

lemma in_flight_link_pending:
  "submission_in_flight (s\<lparr>pending := pending s @ [LinkPending i]\<rparr>) = submission_in_flight s"
  "submission_in_flight (s\<lparr>pending := remove1 (LinkPending i) (pending s)\<rparr>) =
     submission_in_flight s"
  by (simp_all add: submission_in_flight_def)

lemma enabled_at_rest_step:
  assumes "enabled_at_rest s" and "step ui e s = Some s'"
  shows "enabled_at_rest s'"
proof (cases e)
  case (RouteParams p)
  with assms show ?thesis
    by (auto simp: enabled_at_rest_def submission_in_flight_def ngOnInit_params_def loadLink_def
        split: option.splits if_splits)
next
  case (LoadLink i)
  with assms show ?thesis
    by (auto simp: enabled_at_rest_def submission_in_flight_def loadLink_def)
next
  case (LinkSettled i outcome)
  with assms show ?thesis
    by (cases outcome)
      (auto simp: enabled_at_rest_def submission_in_flight_def loadLink_settled_def
        split: if_splits)
next
  case Search
  with assms show ?thesis
    by (auto simp: enabled_at_rest_def submission_in_flight_def search_def Let_def
        split: if_splits)
next
  case Submit
  with assms show ?thesis
    by (auto simp: enabled_at_rest_def submission_in_flight_def onSubmit_def
        markAllAsTouched_def split: if_splits)
next
  case (TokenSettled token uuid)
  with assms show ?thesis
    by (auto simp: enabled_at_rest_def submission_in_flight_def onSubmit_tokenSettled_def
        onSubmit_catch_def enable_def Let_def split: if_splits sum.splits)
next
  case (PaymentSettled outcome)
  with assms show ?thesis
    by (auto simp: enabled_at_rest_def paymentSettled_enabled split: if_splits)
next
  case Retry
  with assms show ?thesis
    by (auto simp: enabled_at_rest_def submission_in_flight_def retry_def split: if_splits)
next
  case (InputCardNumber v)
  with assms show ?thesis
    by (auto simp: enabled_at_rest_def submission_in_flight_def formatCardNumber_def)
next
  case (InputExpiryDate v)
  with assms show ?thesis
    by (auto simp: enabled_at_rest_def submission_in_flight_def formatExpiryDate_def)
next
  case (InputCvc v)
  with assms show ?thesis
    by (auto simp: enabled_at_rest_def submission_in_flight_def)
next
  case (InputCardHolder v)
  with assms show ?thesis
    by (auto simp: enabled_at_rest_def submission_in_flight_def)
next
  case (InputSearch v)
  with assms show ?thesis
    by (auto simp: enabled_at_rest_def submission_in_flight_def)
qed

lemma enabled_at_rest_run:
  assumes "run ui es initial = Some s"
  shows "enabled_at_rest s"
proof (rule run_invariant [where P = enabled_at_rest, OF _ _ assms])
  show "enabled_at_rest (initial :: 'a CheckoutComponent)"
    by (simp add: enabled_at_rest_def initial_def)
qed (rule enabled_at_rest_step)

lemmas step_defs =
  ngOnInit_params_def loadLink_def loadLink_settled_def search_def onSubmit_def
  onSubmit_tokenSettled_def onSubmit_catch_def onSubmit_paymentSettled_def retry_def
  formatCardNumber_def formatExpiryDate_def Let_def

lemma result_present_step:
  assumes "result_present s" and "step ui e s = Some s'"
  shows "result_present s'"
  using assms
  by (cases e)
    (auto simp: result_present_def step_defs
      split: if_splits option.splits sum.splits http_outcome.splits)

lemma result_present_run:
  assumes "run ui es initial = Some s"
  shows "result_present s"
proof (rule run_invariant [where P = result_present, OF _ _ assms])
  show "result_present (initial :: 'a CheckoutComponent)"
    by (simp add: result_present_def initial_def)
qed (rule result_present_step)

lemma link_present_step:
  assumes "link_present s" and "step True e s = Some s'"
  shows "link_present s'"
proof (cases e)
  case (RouteParams p)
  with assms show ?thesis
    by (auto simp: link_present_def submission_in_flight_def ngOnInit_params_def loadLink_def
        split: option.splits if_splits)
next
  case (LoadLink i)
  with assms show ?thesis
    by (auto simp: link_present_def submission_in_flight_def loadLink_def)
next
  case (LinkSettled i outcome)
  with assms show ?thesis
    by (cases outcome)
      (auto simp: link_present_def submission_in_flight_def loadLink_settled_def
        split: if_splits)
next
  case Search
  with assms show ?thesis
    by (auto simp: link_present_def submission_in_flight_def search_def Let_def
        split: if_splits)
next
  case Submit
  with assms show ?thesis
    by (auto simp: link_present_def onSubmit_frame split: if_splits)
next
  case (TokenSettled token uuid)
  with assms have "paymentLink s \<noteq> None"
    by (auto simp: link_present_def submission_in_flight_def split: if_splits)
  moreover from TokenSettled assms have "paymentLink s' = paymentLink s"
    by (auto simp: onSubmit_tokenSettled_def onSubmit_catch_def Let_def
        split: if_splits sum.splits)
  ultimately show ?thesis
    by (auto simp: link_present_def)
next
  case (PaymentSettled outcome)
  with assms have "paymentLink s \<noteq> None"
    by (auto simp: link_present_def submission_in_flight_def split: if_splits)
  moreover from PaymentSettled assms have "paymentLink s' = paymentLink s"
    by (cases outcome) (auto simp: onSubmit_paymentSettled_def split: if_splits)
  ultimately show ?thesis
    by (auto simp: link_present_def)
next
  case Retry
  with assms show ?thesis
    by (auto simp: link_present_def retry_def split: if_splits)
next
  case (InputCardNumber v)
  with assms show ?thesis
    by (auto simp: link_present_def submission_in_flight_def formatCardNumber_def)
next
  case (InputExpiryDate v)
  with assms show ?thesis
    by (auto simp: link_present_def submission_in_flight_def formatExpiryDate_def)
next
  case (InputCvc v)
  with assms show ?thesis
    by (auto simp: link_present_def submission_in_flight_def)
next
  case (InputCardHolder v)
  with assms show ?thesis
    by (auto simp: link_present_def submission_in_flight_def)
next
  case (InputSearch v)
  with assms show ?thesis
    by (auto simp: link_present_def submission_in_flight_def)
qed

lemma link_present_run:
  assumes "run True es initial = Some s"
  shows "link_present s"
proof (rule run_invariant [where P = link_present, OF _ _ assms])
  show "link_present (initial :: 'a CheckoutComponent)"
    by (simp add: link_present_def initial_def submission_in_flight_def)
qed (rule link_present_step)

lemma run_sample_ready: "run ui sample_ready_events initial = Some sample_ready"
  by (simp add: sample_ready_events_def sample_ready_def initial_def component_defs
      string_defs form_defs Let_def)

lemma onSubmit_try_pending:
  "onSubmit_try token uuid (s\<lparr>pending := p\<rparr>) = onSubmit_try token uuid s"
  by (simp add: onSubmit_try_def split: option.split)

lemma tokenSettled_thrown:
  assumes "onSubmit_try token uuid s = Inl e"
  shows "onSubmit_tokenSettled token uuid s =
           onSubmit_catch (s\<lparr>pending := remove1 TokenPending (pending s)\<rparr>)"
  using assms by (simp add: onSubmit_tokenSettled_def Let_def onSubmit_try_pending)

lemma tokenSettled_sent:
  assumes "onSubmit_try token uuid s = Inr (i, request)"
  shows "onSubmit_tokenSettled token uuid s =
           s\<lparr>calls := calls s @ [ProcessPayment i request],
             pending := remove1 TokenPending (pending s) @ [PaymentPending]\<rparr>"
  using assms by (simp add: onSubmit_tokenSettled_def Let_def onSubmit_try_pending)

lemma catch_enabled:
  "\<not> disabled (paymentForm (onSubmit_catch s))"
  "status (onSubmit_catch s) = ERROR_RETRYABLE"
  "errorMessage (onSubmit_catch s) = Some preparing_error_message"
  by (simp_all add: onSubmit_catch_def enable_def)

lemma paymentSettled_status:
  "status (onSubmit_paymentSettled outcome s) = COMPLETED \<or>
   status (onSubmit_paymentSettled outcome s) = FAILED \<or>
   status (onSubmit_paymentSettled outcome s) = ERROR_RETRYABLE"
  by (cases outcome) (simp_all add: paymentSettled_ok paymentSettled_error)

lemma onSubmit_complete_cases:
  assumes "\<not> paymentForm_invalid (paymentForm s)"
  shows "onSubmit_complete token uuid outcome s =
           (case onSubmit_try token uuid s of
              Inl e \<Rightarrow> onSubmit_catch ((onSubmit s)\<lparr>pending := remove1 TokenPending (pending (onSubmit s))\<rparr>)
            | Inr call \<Rightarrow>
                onSubmit_paymentSettled outcome (onSubmit_tokenSettled token uuid (onSubmit s)))"
proof (cases "onSubmit_try token uuid s")
  case (Inl e)
  then have "onSubmit_try token uuid (onSubmit s) = Inl e"
    by (simp add: onSubmit_try_frame)
  from tokenSettled_thrown [OF this] Inl assms show ?thesis
    by (simp add: onSubmit_complete_def Let_def onSubmit_try_frame)
next
  case (Inr call)
  with assms show ?thesis
    by (simp add: onSubmit_complete_def Let_def onSubmit_try_frame)
qed

lemma onSubmit_complete_enabled:
  assumes "\<not> paymentForm_invalid (paymentForm s)"
  shows "\<not> disabled (paymentForm (onSubmit_complete token uuid outcome s))"
    and "status (onSubmit_complete token uuid outcome s) \<noteq> PROCESSING_PAYMENT"
proof -
  show "\<not> disabled (paymentForm (onSubmit_complete token uuid outcome s))"
    by (cases "onSubmit_try token uuid s")
      (simp_all add: onSubmit_complete_cases [OF assms] catch_enabled paymentSettled_enabled)
  show "status (onSubmit_complete token uuid outcome s) \<noteq> PROCESSING_PAYMENT"
  proof (cases "onSubmit_try token uuid s")
    case (Inl e)
    then show ?thesis
      by (simp add: onSubmit_complete_cases [OF assms] catch_enabled)
  next
    case (Inr call)
    with paymentSettled_status
      [of outcome "onSubmit_tokenSettled token uuid (onSubmit s)"]
    show ?thesis
      by (auto simp add: onSubmit_complete_cases [OF assms])
  qed
qed

subsection \<open>C2: the form is enabled again\<close>

text \<open>
  Claim C2. On every path by which \<open>onSubmit\<close> leaves \<open>PROCESSING_PAYMENT\<close> the payment
  form is enabled again: when the gateway answers, with a completed result, a failed
  result or a transport error; and when tokenization or the building of the request
  throws, which includes the missing link id. So a whole submission of a valid form ends
  with the form enabled and outside \<open>PROCESSING_PAYMENT\<close>; and in every reachable state
  in which no submission is in flight the form is enabled.
\<close>

theorem onSubmit_reenables_form:
  "(\<forall>outcome (s :: 'n CheckoutComponent).
      \<not> disabled (paymentForm (onSubmit_paymentSettled outcome s)) \<and>
      (status (onSubmit_paymentSettled outcome s) = COMPLETED \<or>
       status (onSubmit_paymentSettled outcome s) = FAILED \<or>
       status (onSubmit_paymentSettled outcome s) = ERROR_RETRYABLE)) \<and>
   (\<forall>token uuid e (s :: 'n CheckoutComponent).
      onSubmit_try token uuid s = Inl e \<longrightarrow>
      \<not> disabled (paymentForm (onSubmit_tokenSettled token uuid s)) \<and>
      status (onSubmit_tokenSettled token uuid s) = ERROR_RETRYABLE) \<and>
   (\<forall>token uuid (s :: 'n CheckoutComponent).
      paymentLink s = None \<longrightarrow> (\<exists>e. onSubmit_try token uuid s = Inl e)) \<and>
   (\<forall>token uuid outcome (s :: 'n CheckoutComponent).
      \<not> paymentForm_invalid (paymentForm s) \<longrightarrow>
      \<not> disabled (paymentForm (onSubmit_complete token uuid outcome s)) \<and>
      status (onSubmit_complete token uuid outcome s) \<noteq> PROCESSING_PAYMENT) \<and>
   (\<forall>ui (s :: 'n CheckoutComponent).
      reachable ui s \<and> \<not> submission_in_flight s \<longrightarrow> \<not> disabled (paymentForm s))"
proof (intro conjI allI impI)
  fix token uuid e and s :: "'n CheckoutComponent"
  assume "onSubmit_try token uuid s = Inl e"
  then show "\<not> disabled (paymentForm (onSubmit_tokenSettled token uuid s))"
    and "status (onSubmit_tokenSettled token uuid s) = ERROR_RETRYABLE"
    by (simp_all add: tokenSettled_thrown catch_enabled)
next
  fix token uuid and s :: "'n CheckoutComponent"
  assume "paymentLink s = None"
  then show "\<exists>e. onSubmit_try token uuid s = Inl e"
    by (simp add: onSubmit_try_def split: option.split)
next
  fix ui and s :: "'n CheckoutComponent"
  assume "reachable ui s \<and> \<not> submission_in_flight s"
  then show "\<not> disabled (paymentForm s)"
    by (auto simp: reachable_def enabled_at_rest_def dest: enabled_at_rest_run)
qed (simp_all add: paymentSettled_enabled paymentSettled_status onSubmit_complete_enabled)

lemma sample_ready_fields:
  "status sample_ready = READY_TO_PAY"
  "pending sample_ready = []"
  "paymentResult sample_ready = None"
  "\<not> disabled (paymentForm sample_ready)"
  by (simp_all add: sample_ready_def)

lemma sample_paid_eq:
  "sample_paid =
     onSubmit_paymentSettled (HttpOk (sample_result PAYMENT_COMPLETED))
       (onSubmit_tokenSettled (Some (js ''tok'')) (Some (js ''key'')) (onSubmit sample_ready))"
  unfolding sample_paid_def
  by (rule onSubmit_complete_sent [OF sample_ready_valid sample_ready_link])

lemma sample_submit_pending:
  "pending (onSubmit sample_ready) = [TokenPending]"
  "pending (onSubmit_tokenSettled (Some (js ''tok'')) (Some (js ''key''))
              (onSubmit sample_ready)) = [PaymentPending]"
proof -
  have sent: "onSubmit_try (Some (js ''tok'')) (Some (js ''key'')) (onSubmit sample_ready) =
          Inr (link_id (sample_link (js ''link123'')),
               \<lparr>cardToken = js ''tok'', pspProvider = STRIPE, idempotencyKey = js ''key'',
                metadata = [(js ''cardHolder'',
                             control_value (cardHolder (paymentForm sample_ready)))]\<rparr>)"
    by (simp only: onSubmit_try_frame onSubmit_try_sent [OF sample_ready_link])
  show p1: "pending (onSubmit sample_ready) = [TokenPending]"
    by (simp add: onSubmit_valid [OF sample_ready_valid] sample_ready_fields)
  show "pending (onSubmit_tokenSettled (Some (js ''tok'')) (Some (js ''key''))
                  (onSubmit sample_ready)) = [PaymentPending]"
    by (simp add: tokenSettled_sent [OF sent] p1)
qed

lemma sample_paid_fields:
  "status sample_paid = COMPLETED"
  "paymentResult sample_paid = Some (sample_result PAYMENT_COMPLETED)"
  "pending sample_paid = []"
  by (simp_all add: sample_paid_eq paymentSettled_ok paymentSettled_enabled
      sample_submit_pending sample_result_def)

lemma run_sample_paid: "run ui sample_paid_events initial = Some sample_paid"
  by (simp add: sample_paid_events_def run_append run_sample_ready sample_ready_fields
      sample_submit_pending sample_paid_eq)

lemma run_sample_next_link:
  "run ui sample_next_link_events initial =
     Some (loadLink_settled (js ''link456'') (HttpOk (sample_link (js ''link456'')))
             (loadLink (js ''link456'') sample_paid))"
proof -
  have ne: "js ''link456'' \<noteq> []"
    by (simp add: js_def)
  have pend: "LinkPending (js ''link456'') \<in> set (pending (loadLink (js ''link456'') sample_paid))"
    by (simp add: loadLink_def)
  show ?thesis
    by (simp add: sample_next_link_events_def run_append run_sample_paid ngOnInit_params_def
        ne pend)
qed

lemma reachableI: "run ui es initial = Some s \<Longrightarrow> reachable ui s"
  by (auto simp: reachable_def)

text \<open>
  The theorem at the sample component: a submission without a loaded link throws and
  ends enabled in \<open>ERROR_RETRYABLE\<close>; the completed payment ends enabled in \<open>COMPLETED\<close>;
  and the state reached by the events of the completed payment is at rest and enabled.
\<close>

theorem onSubmit_reenables_form_witness:
  "onSubmit_try (Some (js ''tok'')) (Some (js ''key'')) (sample_ready\<lparr>paymentLink := None\<rparr>) =
     Inl MissingLinkId \<and>
   \<not> disabled (paymentForm (onSubmit_tokenSettled (Some (js ''tok'')) (Some (js ''key''))
                  (sample_ready\<lparr>paymentLink := None\<rparr>))) \<and>
   status (onSubmit_tokenSettled (Some (js ''tok'')) (Some (js ''key''))
             (sample_ready\<lparr>paymentLink := None\<rparr>)) = ERROR_RETRYABLE \<and>
   \<not> paymentForm_invalid (paymentForm sample_ready) \<and>
   \<not> disabled (paymentForm sample_paid) \<and>
   status sample_paid = COMPLETED \<and>
   reachable True sample_paid \<and>
   \<not> submission_in_flight sample_paid"
proof -
  let ?s = "sample_ready\<lparr>paymentLink := None\<rparr>"
  have thrown: "onSubmit_try (Some (js ''tok'')) (Some (js ''key'')) ?s = Inl MissingLinkId"
    by (simp add: onSubmit_try_def)
  have reach: "reachable True sample_paid"
    by (rule reachableI [OF run_sample_paid])
  have rest: "\<not> submission_in_flight sample_paid"
    by (simp add: submission_in_flight_def sample_paid_fields)
  note all = onSubmit_reenables_form [where 'n = int]
  note throw_path = all [THEN conjunct2, THEN conjunct1, rule_format, OF thrown]
  note whole = all [THEN conjunct2, THEN conjunct2, THEN conjunct2, THEN conjunct1,
    rule_format, OF sample_ready_valid,
    of "Some (js ''tok'')" "Some (js ''key'')" "HttpOk (sample_result PAYMENT_COMPLETED)"]
  note at_rest = all [THEN conjunct2, THEN conjunct2, THEN conjunct2, THEN conjunct2,
    rule_format, OF conjI, OF reach rest]
  from whole have en: "\<not> disabled (paymentForm sample_paid)"
    by (simp add: sample_paid_def)
  from thrown throw_path sample_ready_valid en at_rest reach rest sample_paid_fields(1)
  show ?thesis
    by simp
qed

lemma ready_unpaid_step:
  assumes "ready_unpaid s" and "step ui e s = Some s'" and "\<not> stale_lookup e s"
  shows "ready_unpaid s'"
proof (cases e)
  case (RouteParams p)
  with assms show ?thesis
    by (auto simp: ready_unpaid_def ngOnInit_params_def loadLink_def split: option.splits if_splits)
next
  case (LoadLink i)
  with assms show ?thesis
    by (auto simp: ready_unpaid_def loadLink_def)
next
  case (LinkSettled i outcome)
  with assms show ?thesis
    by (cases outcome)
      (auto simp: ready_unpaid_def stale_lookup_def loadLink_settled_def split: if_splits)
next
  case Search
  with assms show ?thesis
    by (auto simp: ready_unpaid_def search_def Let_def split: if_splits)
next
  case Submit
  with assms show ?thesis
    by (auto simp: ready_unpaid_def onSubmit_def split: if_splits)
next
  case (TokenSettled token uuid)
  with assms show ?thesis
    by (auto simp: ready_unpaid_def onSubmit_tokenSettled_def onSubmit_catch_def Let_def
        split: if_splits sum.splits)
next
  case (PaymentSettled outcome)
  with assms show ?thesis
    by (cases outcome) (auto simp: ready_unpaid_def onSubmit_paymentSettled_def split: if_splits)
next
  case Retry
  with assms show ?thesis
    by (auto simp: ready_unpaid_def retry_def split: if_splits)
next
  case (InputCardNumber v)
  with assms show ?thesis
    by (auto simp: ready_unpaid_def formatCardNumber_def)
next
  case (InputExpiryDate v)
  with assms show ?thesis
    by (auto simp: ready_unpaid_def formatExpiryDate_def)
next
  case (InputCvc v)
  with assms show ?thesis
    by (auto simp: ready_unpaid_def)
next
  case (InputCardHolder v)
  with assms show ?thesis
    by (auto simp: ready_unpaid_def)
next
  case (InputSearch v)
  with assms show ?thesis
    by (auto simp: ready_unpaid_def)
qed

lemma ready_unpaid_fresh_run:
  assumes "ready_unpaid s" and "run ui es s = Some t" and "fresh_lookups ui es s"
  shows "ready_unpaid t"
  using assms
proof (induction es arbitrary: s)
  case Nil
  then show ?case by simp
next
  case (Cons e es)
  from Cons.prems(2) obtain s' where e: "step ui e s = Some s'" and es: "run ui es s' = Some t"
    by (auto split: option.splits)
  from Cons.prems(3) e have fresh: "\<not> stale_lookup e s" and rest: "fresh_lookups ui es s'"
    by simp_all
  from ready_unpaid_step [OF Cons.prems(1) e fresh] es rest show ?case
    by (rule Cons.IH)
qed

lemma ready_unpaid_initial: "ready_unpaid (initial :: 'n CheckoutComponent)"
  by (simp add: ready_unpaid_def initial_def)

lemma fresh_sample_ready: "fresh_lookups ui sample_ready_events initial"
  by (simp add: sample_ready_events_def stale_lookup_def initial_def ngOnInit_params_def
      loadLink_def loadLink_settled_def formatCardNumber_def formatExpiryDate_def js_def)

subsection \<open>C3: status, link and result\<close>

text \<open>
  Claim C3 says that in every reachable state \<open>READY_TO_PAY\<close> implies a loaded link and
  an absent payment result, and \<open>COMPLETED\<close> or \<open>FAILED\<close> a present result. After a
  completed payment a change of the route to a second link, which is loaded, leads to
  \<open>READY_TO_PAY\<close> with the result of the first payment still stored; and \<open>retry()\<close>
  called on the initial component leads to \<open>READY_TO_PAY\<close> with no link.
\<close>

theorem ready_to_pay_counterexample:
  "map_option status (run True sample_next_link_events initial) = Some READY_TO_PAY \<and>
   map_option paymentResult (run True sample_next_link_events initial) =
     Some (Some (sample_result PAYMENT_COMPLETED)) \<and>
   map_option status (run False [Retry] (initial :: int CheckoutComponent)) =
     Some READY_TO_PAY \<and>
   map_option paymentLink (run False [Retry] (initial :: int CheckoutComponent)) = Some None"
proof -
  have "map_option status (run True sample_next_link_events initial) = Some READY_TO_PAY"
    and "map_option paymentResult (run True sample_next_link_events initial) =
           Some (Some (sample_result PAYMENT_COMPLETED))"
    by (simp_all add: run_sample_next_link loadLink_settled_def loadLink_def
        sample_paid_fields)
  moreover
  have "map_option status (run False [Retry] (initial :: int CheckoutComponent)) =
          Some READY_TO_PAY"
    and "map_option paymentLink (run False [Retry] (initial :: int CheckoutComponent)) =
           Some None"
    by (simp_all add: retry_def initial_def)
  ultimately show ?thesis
    by (simp only: simp_thms)
qed

text \<open>
  Claim C3, amended. In every state reachable from the initial one by any sequence of
  route events, calls of \<open>loadLink\<close>, \<open>search\<close>, \<open>onSubmit\<close> and \<open>retry\<close>, user input
  and answers of the collaborators, the status \<open>COMPLETED\<close> or \<open>FAILED\<close> implies a
  present payment result. The status \<open>READY_TO_PAY\<close> implies an absent payment result in
  every state reached by a run in which no lookup succeeds while a payment result is
  stored. When \<open>onSubmit\<close> is called in \<open>READY_TO_PAY\<close> only and \<open>retry\<close> in \<open>FAILED\<close>
  or \<open>ERROR_RETRYABLE\<close> only, as the transition table has them, the status
  \<open>READY_TO_PAY\<close> implies a loaded payment link in every reachable state.
\<close>

theorem status_consistency:
  "(\<forall>ui (s :: 'n CheckoutComponent).
      reachable ui s \<longrightarrow>
      (status s = COMPLETED \<or> status s = FAILED \<longrightarrow> paymentResult s \<noteq> None)) \<and>
   (\<forall>ui es (s :: 'n CheckoutComponent).
      run ui es initial = Some s \<and> fresh_lookups ui es initial \<longrightarrow>
      (status s = READY_TO_PAY \<longrightarrow> paymentResult s = None)) \<and>
   (\<forall>s :: 'n CheckoutComponent.
      reachable True s \<longrightarrow> (status s = READY_TO_PAY \<longrightarrow> paymentLink s \<noteq> None))"
proof (intro conjI allI impI)
  fix ui and s :: "'n CheckoutComponent"
  assume "reachable ui s" and "status s = COMPLETED \<or> status s = FAILED"
  then show "paymentResult s \<noteq> None"
    by (auto simp: reachable_def result_present_def dest!: result_present_run)
next
  fix ui es and s :: "'n CheckoutComponent"
  assume "run ui es initial = Some s \<and> fresh_lookups ui es initial"
    and ready: "status s = READY_TO_PAY"
  then have "ready_unpaid s"
    using ready_unpaid_fresh_run [OF ready_unpaid_initial, of ui es s] by simp
  with ready show "paymentResult s = None"
    by (simp add: ready_unpaid_def)
next
  fix s :: "'n CheckoutComponent"
  assume "reachable True s" and "status s = READY_TO_PAY"
  then show "paymentLink s \<noteq> None"
    by (auto simp: reachable_def link_present_def dest!: link_present_run)
qed

text \<open>
  The theorem at the sample component, before and after its payment; the run that leads
  to it has one lookup, which is fresh.
\<close>

theorem status_consistency_witness:
  "reachable True sample_paid \<and> status sample_paid = COMPLETED \<and>
   paymentResult sample_paid \<noteq> None \<and>
   run True sample_ready_events initial = Some sample_ready \<and>
   fresh_lookups True sample_ready_events (initial :: int CheckoutComponent) \<and>
   reachable True sample_ready \<and> status sample_ready = READY_TO_PAY \<and>
   paymentResult sample_ready = None \<and>
   paymentLink sample_ready \<noteq> None"
proof -
  have r1: "reachable True sample_paid"
    by (rule reachableI [OF run_sample_paid])
  have r2: "reachable True sample_ready"
    by (rule reachableI [OF run_sample_ready])
  note all = status_consistency [where 'n = int]
  note result = all [THEN conjunct1, rule_format, OF r1 disjI1, OF sample_paid_fields(1)]
  note unpaid = all [THEN conjunct2, THEN conjunct1, rule_format, OF conjI,
    OF run_sample_ready fresh_sample_ready sample_ready_fields(1)]
  note link = all [THEN conjunct2, THEN conjunct2, rule_format, OF r2 sample_ready_fields(1)]
  from r1 r2 result unpaid link sample_paid_fields(1) sample_ready_fields(1)
    run_sample_ready [of True] fresh_sample_ready [of True]
  show ?thesis
    by simp
qed

section \<open>The total amount\<close>
















subsection \<open>C6: the rounding of the total\<close>




end
